theory Spec2Isabelle
  imports Complex_Main
begin

section \<open>JavaScript values\<close>

text \<open>
  The router of \<^verbatim>\<open>src/server/routers/lambda/market/agent.ts\<close> moves untyped
  JavaScript values between the caller and the marketplace SDK. A number is
  never inspected by the router beyond its type, so its payload is kept abstract
  enough to tell \<^verbatim>\<open>NaN\<close> and the infinities from finite numbers. An object is
  an association list of its own enumerable properties, read with the first
  binding of a key.
\<close>

datatype jsnumber = NaN | PosInfinity | NegInfinity | Finite real

datatype jsval =
    JUndefined
  | JNull
  | JBool bool
  | JNum jsnumber
  | JStr string
  | JArr "jsval list"
  | JObj "(string \<times> jsval) list"

text \<open>\<^verbatim>\<open>obj[key]\<close> on a plain object: a missing property reads as \<^verbatim>\<open>undefined\<close>.\<close>

definition getProp :: "(string \<times> jsval) list \<Rightarrow> string \<Rightarrow> jsval" where
  "getProp kvs k = (case map_of kvs k of None \<Rightarrow> JUndefined | Some v \<Rightarrow> v)"

text \<open>\<^verbatim>\<open>key in obj\<close>.\<close>

definition has_prop :: "(string \<times> jsval) list \<Rightarrow> string \<Rightarrow> bool" where
  "has_prop kvs k = (map_of kvs k \<noteq> None)"

text \<open>\<^verbatim>\<open>a ?? b\<close>: the right operand replaces \<^verbatim>\<open>undefined\<close> and \<^verbatim>\<open>null\<close> only.\<close>

definition nullish :: "jsval \<Rightarrow> bool" where
  "nullish v = (v = JUndefined \<or> v = JNull)"

definition nullish_coalesce :: "jsval \<Rightarrow> jsval \<Rightarrow> jsval" where
  "nullish_coalesce a b = (if nullish a then b else a)"

section \<open>Thrown values and tRPC errors\<close>

text \<open>
  Anything can be thrown in JavaScript. The handlers only ask whether the caught
  value is an instance of \<^verbatim>\<open>Error\<close> and, if so, read its \<^verbatim>\<open>message\<close>.
  An \<open>ErrorObject\<close> is an instance of \<^verbatim>\<open>Error\<close> or of a subclass, with its name
  (its kind) and its message; \<open>Thrown\<close> is any other thrown value.
\<close>

datatype thrown =
    ErrorObject string string
  | Thrown jsval

text \<open>
  An issue of a \<^verbatim>\<open>ZodError\<close> is an object: first the data the failing schema
  wrote (\<^verbatim>\<open>code\<close>, \<^verbatim>\<open>expected\<close>, \<^verbatim>\<open>received\<close>, \<^verbatim>\<open>options\<close>, in the order the
  schema wrote them), then the path of the value, then the message.
\<close>

datatype path_elem = Key string | Index nat

datatype issue_field = Text string | Texts "string list"

record zod_issue =
  issue_data :: "(string \<times> issue_field) list"
  issue_path :: "path_elem list"
  issue_message :: string

section \<open>Input schemas (zod)\<close>

text \<open>
  The schema combinators the router uses: \<^verbatim>\<open>z.string()\<close>, \<^verbatim>\<open>z.number()\<close>,
  \<^verbatim>\<open>z.boolean()\<close>, \<^verbatim>\<open>z.any()\<close>, \<^verbatim>\<open>z.enum([...])\<close>, \<^verbatim>\<open>.optional()\<close>,
  \<^verbatim>\<open>z.array(s)\<close>, \<^verbatim>\<open>z.record(s)\<close> and \<^verbatim>\<open>z.object({...})\<close>.
\<close>

datatype zod_schema =
    ZString
  | ZNumber
  | ZBoolean
  | ZAny
  | ZEnum "string list"
  | ZOptional zod_schema
  | ZArray zod_schema
  | ZRecord zod_schema
  | ZObject "(string \<times> zod_schema) list"

text \<open>zod's \<^verbatim>\<open>getParsedType\<close>, by name.\<close>

fun parsedType :: "jsval \<Rightarrow> string" where
  "parsedType JUndefined = ''undefined''"
| "parsedType JNull = ''null''"
| "parsedType (JBool b) = ''boolean''"
| "parsedType (JNum NaN) = ''nan''"
| "parsedType (JNum n) = ''number''"
| "parsedType (JStr s) = ''string''"
| "parsedType (JArr xs) = ''array''"
| "parsedType (JObj kvs) = ''object''"

text \<open>
  The default error map: a missing value is reported as \<^verbatim>\<open>Required\<close>, a value
  of the wrong type as \<^verbatim>\<open>Expected T, received U\<close>.
\<close>

definition invalid_type_message :: "string \<Rightarrow> jsval \<Rightarrow> string" where
  "invalid_type_message expected v =
     (if v = JUndefined then ''Required''
      else ''Expected '' @ expected @ '', received '' @ parsedType v)"

text \<open>
  The issue of \<^verbatim>\<open>z.string()\<close>, \<^verbatim>\<open>z.number()\<close>, \<^verbatim>\<open>z.boolean()\<close>, \<^verbatim>\<open>z.array\<close>,
  \<^verbatim>\<open>z.record\<close> and \<^verbatim>\<open>z.object\<close> on a value of another type.
\<close>

definition invalid_type_issue :: "path_elem list \<Rightarrow> string \<Rightarrow> jsval \<Rightarrow> zod_issue" where
  "invalid_type_issue p expected v =
     \<lparr>issue_data = [(''code'', Text ''invalid_type''), (''expected'', Text expected),
                    (''received'', Text (parsedType v))],
      issue_path = p,
      issue_message = invalid_type_message expected v\<rparr>"

fun joinValues :: "string list \<Rightarrow> string" where
  "joinValues [] = ''''"
| "joinValues [x] = [CHR 0x27] @ x @ [CHR 0x27]"
| "joinValues (x # xs) = [CHR 0x27] @ x @ [CHR 0x27] @ '' | '' @ joinValues xs"

text \<open>
  The two issues of \<^verbatim>\<open>z.enum\<close>: on a value that is not a string, and on a
  string that is not among the options.
\<close>

definition enum_type_issue :: "path_elem list \<Rightarrow> string list \<Rightarrow> jsval \<Rightarrow> zod_issue" where
  "enum_type_issue p options v =
     \<lparr>issue_data = [(''expected'', Text (joinValues options)),
                    (''received'', Text (parsedType v)), (''code'', Text ''invalid_type'')],
      issue_path = p,
      issue_message = invalid_type_message (joinValues options) v\<rparr>"

definition invalid_enum_issue :: "path_elem list \<Rightarrow> string list \<Rightarrow> string \<Rightarrow> zod_issue" where
  "invalid_enum_issue p options received =
     \<lparr>issue_data = [(''received'', Text received), (''code'', Text ''invalid_enum_value''),
                    (''options'', Texts options)],
      issue_path = p,
      issue_message =
        ''Invalid enum value. Expected '' @ joinValues options @ '', received ''
          @ [CHR 0x27] @ received @ [CHR 0x27]\<rparr>"

text \<open>
  A parse returns the issues it found and, when there are none, the parsed
  value. \<open>mergeObject\<close> is zod's \<^verbatim>\<open>ParseStatus.mergeObjectSync\<close>: it keeps the
  issues of every member, and builds the output from the members whose value is
  defined or whose key was present in the input.
\<close>

type_synonym parse_result = "zod_issue list \<times> jsval"

definition mergeObject :: "(string \<times> bool \<times> parse_result) list \<Rightarrow> parse_result" where
  "mergeObject pairs =
     (concat (map (\<lambda>(k, alwaysSet, r). fst r) pairs),
      JObj (concat (map (\<lambda>(k, alwaysSet, r).
              if k \<noteq> ''__proto__'' \<and> (snd r \<noteq> JUndefined \<or> alwaysSet)
              then [(k, snd r)] else []) pairs)))"

definition mergeArray :: "parse_result list \<Rightarrow> parse_result" where
  "mergeArray rs = (concat (map fst rs), JArr (map snd rs))"

fun zparse :: "zod_schema \<Rightarrow> path_elem list \<Rightarrow> jsval \<Rightarrow> parse_result" where
  "zparse ZString p v =
     (if parsedType v = ''string'' then ([], v)
      else ([invalid_type_issue p ''string'' v], JUndefined))"
| "zparse ZNumber p v =
     (if parsedType v = ''number'' then ([], v)
      else ([invalid_type_issue p ''number'' v], JUndefined))"
| "zparse ZBoolean p v =
     (if parsedType v = ''boolean'' then ([], v)
      else ([invalid_type_issue p ''boolean'' v], JUndefined))"
| "zparse ZAny p v = ([], v)"
| "zparse (ZEnum options) p v =
     (case v of
        JStr s \<Rightarrow>
          (if s \<in> set options then ([], v)
           else ([invalid_enum_issue p options s], JUndefined))
      | _ \<Rightarrow> ([enum_type_issue p options v], JUndefined))"
| "zparse (ZOptional s) p v =
     (if v = JUndefined then ([], JUndefined) else zparse s p v)"
| "zparse (ZArray s) p v =
     (case v of
        JArr xs \<Rightarrow>
          mergeArray (map (\<lambda>(i, x). zparse s (p @ [Index i]) x) (enumerate 0 xs))
      | _ \<Rightarrow> ([invalid_type_issue p ''array'' v], JUndefined))"
| "zparse (ZRecord s) p v =
     (case v of
        JObj kvs \<Rightarrow>
          mergeObject (map (\<lambda>(k, x). (k, True, zparse s (p @ [Key k]) x)) kvs)
      | _ \<Rightarrow> ([invalid_type_issue p ''object'' v], JUndefined))"
| "zparse (ZObject shape) p v =
     (case v of
        JObj kvs \<Rightarrow>
          mergeObject
            (map (\<lambda>(k, s). (k, has_prop kvs k, zparse s (p @ [Key k]) (getProp kvs k))) shape)
      | _ \<Rightarrow> ([invalid_type_issue p ''object'' v], JUndefined))"

text \<open>\<^verbatim>\<open>schema.safeParse(raw)\<close>: the parsed value, or a \<^verbatim>\<open>ZodError\<close> with every issue.\<close>

definition safeParse :: "zod_schema \<Rightarrow> jsval \<Rightarrow> zod_issue list + jsval" where
  "safeParse s raw = (case zparse s [] raw of (issues, v) \<Rightarrow> if issues = [] then Inr v else Inl issues)"

section \<open>The schemas of the router\<close>

definition createAgentSchema :: zod_schema where
  "createAgentSchema = ZObject
     [(''homepage'', ZOptional ZString),
      (''identifier'', ZString),
      (''isFeatured'', ZOptional ZBoolean),
      (''name'', ZString),
      (''status'', ZOptional (ZEnum [''published'', ''unpublished'', ''archived'', ''deprecated''])),
      (''tokenUsage'', ZOptional ZNumber),
      (''visibility'', ZOptional (ZEnum [''public'', ''private'', ''internal'']))]"

definition createAgentVersionSchema :: zod_schema where
  "createAgentVersionSchema = ZObject
     [(''a2aProtocolVersion'', ZOptional ZString),
      (''avatar'', ZOptional ZString),
      (''category'', ZOptional ZString),
      (''changelog'', ZOptional ZString),
      (''config'', ZOptional (ZRecord ZAny)),
      (''defaultInputModes'', ZOptional (ZArray ZString)),
      (''defaultOutputModes'', ZOptional (ZArray ZString)),
      (''description'', ZOptional ZString),
      (''documentationUrl'', ZOptional ZString),
      (''extensions'', ZOptional (ZArray (ZRecord ZAny))),
      (''hasPushNotifications'', ZOptional ZBoolean),
      (''hasStateTransitionHistory'', ZOptional ZBoolean),
      (''hasStreaming'', ZOptional ZBoolean),
      (''identifier'', ZString),
      (''interfaces'', ZOptional (ZArray (ZRecord ZAny))),
      (''name'', ZOptional ZString),
      (''preferredTransport'', ZOptional ZString),
      (''providerId'', ZOptional ZNumber),
      (''securityRequirements'', ZOptional (ZArray (ZRecord ZAny))),
      (''securitySchemes'', ZOptional (ZRecord ZAny)),
      (''setAsCurrent'', ZOptional ZBoolean),
      (''summary'', ZOptional ZString),
      (''supportsAuthenticatedExtendedCard'', ZOptional ZBoolean),
      (''tokenUsage'', ZOptional ZNumber),
      (''url'', ZOptional ZString)]"

definition paginationSchema :: zod_schema where
  "paginationSchema = ZObject [(''page'', ZOptional ZNumber), (''pageSize'', ZOptional ZNumber)]"

text \<open>
  \<^verbatim>\<open>z.object({ identifier: z.string() })\<close>, written inline at \<^verbatim>\<open>deprecateAgent\<close>,
  \<^verbatim>\<open>getAgentDetail\<close>, \<^verbatim>\<open>publishAgent\<close> and \<^verbatim>\<open>unpublishAgent\<close>.
\<close>

definition identifierSchema :: zod_schema where
  "identifierSchema = ZObject [(''identifier'', ZString)]"

datatype operation =
    CreateAgent
  | CreateAgentVersion
  | DeprecateAgent
  | GetAgentDetail
  | GetOwnAgents
  | PublishAgent
  | UnpublishAgent

fun inputSchema :: "operation \<Rightarrow> zod_schema" where
  "inputSchema CreateAgent = createAgentSchema"
| "inputSchema CreateAgentVersion = createAgentVersionSchema"
| "inputSchema DeprecateAgent = identifierSchema"
| "inputSchema GetAgentDetail = identifierSchema"
| "inputSchema GetOwnAgents = ZOptional paginationSchema"
| "inputSchema PublishAgent = identifierSchema"
| "inputSchema UnpublishAgent = identifierSchema"

section \<open>tRPC errors\<close>

datatype trpc_code = INTERNAL_SERVER_ERROR | BAD_REQUEST | UNAUTHORIZED

text \<open>
  The cause a \<^verbatim>\<open>TRPCError\<close> holds. Its constructor passes the \<^verbatim>\<open>cause\<close> option
  through \<^verbatim>\<open>getCauseFromUnknown\<close>: an \<^verbatim>\<open>Error\<close> instance is kept as it is (also a
  \<^verbatim>\<open>ZodError\<close>, which holds its issues), \<^verbatim>\<open>undefined\<close>, \<^verbatim>\<open>null\<close> and an array
  give no cause, any other primitive \<open>v\<close> gives \<^verbatim>\<open>new Error(String(v))\<close>, and a plain
  object gives an \<^verbatim>\<open>UnknownCauseError\<close> that its properties are copied to.
\<close>

datatype cause =
    Original thrown
  | ZodError "zod_issue list"
  | ErrorOfString jsval
  | UnknownCauseError "(string \<times> jsval) list"

fun getCauseFromUnknown :: "thrown \<Rightarrow> cause option" where
  "getCauseFromUnknown (ErrorObject name msg) = Some (Original (ErrorObject name msg))"
| "getCauseFromUnknown (Thrown JUndefined) = None"
| "getCauseFromUnknown (Thrown JNull) = None"
| "getCauseFromUnknown (Thrown (JArr xs)) = None"
| "getCauseFromUnknown (Thrown (JObj kvs)) = Some (UnknownCauseError kvs)"
| "getCauseFromUnknown (Thrown v) = Some (ErrorOfString v)"

record trpc_error =
  error_cause :: "cause option"
  error_code :: trpc_code
  error_message :: string

text \<open>
  \<^verbatim>\<open>new TRPCError({ cause, code, message })\<close> as the handlers call it, with a
  message: the message is kept and the cause goes through \<open>getCauseFromUnknown\<close>.
\<close>

definition newTRPCError :: "thrown \<Rightarrow> trpc_code \<Rightarrow> string \<Rightarrow> trpc_error" where
  "newTRPCError cause code message =
     \<lparr>error_cause = getCauseFromUnknown cause, error_code = code, error_message = message\<rparr>"

text \<open>
  \<^verbatim>\<open>JSON.stringify(value, replacer, 2)\<close> on what a \<^verbatim>\<open>ZodError\<close> holds: strings
  are quoted, with \<^verbatim>\<open>"\<close>, the backslash and the control characters escaped; an
  array index is written in decimal; a non-empty array or object puts each member
  on a line of its own, two spaces deeper than its brackets.
\<close>

definition jsonEscape :: "char \<Rightarrow> string" where
  "jsonEscape c =
     (if c = CHR 0x22 then [CHR 0x5C, CHR 0x22]
      else if c = CHR 0x5C then [CHR 0x5C, CHR 0x5C]
      else if c = CHR 0x08 then [CHR 0x5C, CHR ''b'']
      else if c = CHR 0x0C then [CHR 0x5C, CHR ''f'']
      else if c = CHR 0x0A then [CHR 0x5C, CHR ''n'']
      else if c = CHR 0x0D then [CHR 0x5C, CHR ''r'']
      else if c = CHR 0x09 then [CHR 0x5C, CHR ''t'']
      else if (of_char c :: nat) < 32
        then [CHR 0x5C, CHR ''u'', CHR ''0'', CHR ''0'',
              ''0123456789abcdef'' ! (of_char c div 16), ''0123456789abcdef'' ! (of_char c mod 16)]
      else [c])"

definition jsonQuote :: "string \<Rightarrow> string" where
  "jsonQuote s = [CHR 0x22] @ concat (map jsonEscape s) @ [CHR 0x22]"

fun decimal :: "nat \<Rightarrow> string" where
  "decimal n =
     (if n < 10 then [''0123456789'' ! n]
      else decimal (n div 10) @ [''0123456789'' ! (n mod 10)])"

definition newline :: "nat \<Rightarrow> string" where
  "newline depth = CHR 0x0A # replicate (2 * depth) (CHR '' '')"

fun joinWith :: "string \<Rightarrow> string list \<Rightarrow> string" where
  "joinWith sep [] = []"
| "joinWith sep [x] = x"
| "joinWith sep (x # xs) = x @ sep @ joinWith sep xs"

definition jsonArray :: "nat \<Rightarrow> string list \<Rightarrow> string" where
  "jsonArray depth items =
     (if items = [] then ''[]''
      else ''['' @ newline (depth + 1) @ joinWith ('','' @ newline (depth + 1)) items
             @ newline depth @ '']'')"

definition jsonObject :: "nat \<Rightarrow> (string \<times> string) list \<Rightarrow> string" where
  "jsonObject depth members =
     (if members = [] then ''{}''
      else ''{'' @ newline (depth + 1)
             @ joinWith ('','' @ newline (depth + 1))
                 (map (\<lambda>(k, v). jsonQuote k @ '': '' @ v) members)
             @ newline depth @ ''}'')"

fun jsonField :: "issue_field \<Rightarrow> string" where
  "jsonField (Text s) = jsonQuote s"
| "jsonField (Texts xs) = jsonArray 2 (map jsonQuote xs)"

fun jsonPathElem :: "path_elem \<Rightarrow> string" where
  "jsonPathElem (Key k) = jsonQuote k"
| "jsonPathElem (Index i) = decimal i"

definition jsonIssue :: "zod_issue \<Rightarrow> string" where
  "jsonIssue i =
     jsonObject 1
       (map (\<lambda>(k, f). (k, jsonField f)) (issue_data i)
        @ [(''path'', jsonArray 2 (map jsonPathElem (issue_path i))),
           (''message'', jsonQuote (issue_message i))])"

text \<open>\<^verbatim>\<open>ZodError.message\<close>: the JSON text of the issues, indented by two spaces.\<close>

definition zodMessage :: "zod_issue list \<Rightarrow> string" where
  "zodMessage issues = jsonArray 0 (map jsonIssue issues)"

text \<open>
  \<^verbatim>\<open>error instanceof Error ? error.message : fallback\<close>: the message of an
  \<^verbatim>\<open>Error\<close> instance, whatever it is, and the fallback for any other thrown value.
\<close>

fun instanceofError :: "thrown \<Rightarrow> bool" where
  "instanceofError (ErrorObject name msg) = True"
| "instanceofError (Thrown v) = False"

fun messageOr :: "thrown \<Rightarrow> string \<Rightarrow> string" where
  "messageOr (ErrorObject name msg) fallback = msg"
| "messageOr (Thrown v) fallback = fallback"

section \<open>The marketplace gateway and the world of a request\<close>

text \<open>
  \<^verbatim>\<open>ctx.marketSDK.agents\<close> is the only way the router reaches the marketplace.
  The SDK is an external collaborator: a call takes the request context, the
  method and its argument, may change the marketplace, and either resolves with
  a value or rejects with a thrown value. The world of a request records every
  gateway call and every line written to the debug log.
\<close>

datatype gateway_method =
    GW_createAgent
  | GW_createAgentVersion
  | GW_deprecate
  | GW_publish
  | GW_unpublish
  | GW_getAgentDetail
  | GW_getOwnAgents

record ctx =
  userId :: string

type_synonym 'g gateway = "ctx \<Rightarrow> gateway_method \<Rightarrow> jsval \<Rightarrow> 'g \<Rightarrow> (thrown + jsval) \<times> 'g"

datatype log_arg = LogValue jsval | LogError thrown

record 'g world =
  gateway_calls :: "(gateway_method \<times> jsval) list"
  debug_log :: "(string \<times> log_arg) list"
  gateway_state :: 'g

definition log :: "string \<Rightarrow> log_arg \<Rightarrow> 'g world \<Rightarrow> 'g world" where
  "log fmt a w = w\<lparr>debug_log := debug_log w @ [(fmt, a)]\<rparr>"

definition callGateway ::
  "'g gateway \<Rightarrow> ctx \<Rightarrow> gateway_method \<Rightarrow> jsval \<Rightarrow> 'g world \<Rightarrow> (thrown + jsval) \<times> 'g world" where
  "callGateway gw c m arg w =
     (case gw c m arg (gateway_state w) of
        (r, g') \<Rightarrow> (r, w\<lparr>gateway_calls := gateway_calls w @ [(m, arg)], gateway_state := g'\<rparr>))"

text \<open>
  \<^verbatim>\<open>input.key\<close>: reading a property of \<^verbatim>\<open>undefined\<close> or \<^verbatim>\<open>null\<close> throws a
  \<^verbatim>\<open>TypeError\<close>; the keys read by the router (\<^verbatim>\<open>identifier\<close>, \<^verbatim>\<open>page\<close>,
  \<^verbatim>\<open>pageSize\<close>) are not defined on primitives or arrays. \<^verbatim>\<open>input?.key\<close> reads
  \<^verbatim>\<open>undefined\<close> instead of throwing.
\<close>

definition member :: "jsval \<Rightarrow> string \<Rightarrow> thrown + jsval" where
  "member v k =
     (case v of
        JUndefined \<Rightarrow>
          Inl (ErrorObject ''TypeError''
                 (''Cannot read properties of undefined (reading '' @ [CHR 0x27] @ k @ [CHR 0x27] @ '')''))
      | JNull \<Rightarrow>
          Inl (ErrorObject ''TypeError''
                 (''Cannot read properties of null (reading '' @ [CHR 0x27] @ k @ [CHR 0x27] @ '')''))
      | JObj kvs \<Rightarrow> Inr (getProp kvs k)
      | _ \<Rightarrow> Inr JUndefined)"

definition optionalMember :: "jsval \<Rightarrow> string \<Rightarrow> jsval" where
  "optionalMember v k =
     (if nullish v then JUndefined else (case member v k of Inl e \<Rightarrow> JUndefined | Inr x \<Rightarrow> x))"

section \<open>The handlers of \<^verbatim>\<open>agentRouter\<close>\<close>

text \<open>
  Every handler has the same \<^verbatim>\<open>catch\<close> clause up to two strings: it logs the
  caught value and throws a \<^verbatim>\<open>TRPCError\<close> made with the caught value as
  \<^verbatim>\<open>cause\<close>, with the code \<^verbatim>\<open>INTERNAL_SERVER_ERROR\<close> and with the caught value's
  message when it is an \<^verbatim>\<open>Error\<close> instance, the handler's own text otherwise. A
  \<^verbatim>\<open>try\<close> body that completes returns its value.
\<close>

type_synonym 'g attempt = "(thrown + jsval) \<times> 'g world"
type_synonym 'g outcome = "(trpc_error + jsval) \<times> 'g world"

definition catchClause :: "string \<Rightarrow> string \<Rightarrow> 'g attempt \<Rightarrow> 'g outcome" where
  "catchClause logText fallback attempt =
     (case attempt of
        (Inr result, w) \<Rightarrow> (Inr result, w)
      | (Inl error, w) \<Rightarrow>
          (Inl (newTRPCError error INTERNAL_SERVER_ERROR (messageOr error fallback)),
           log logText (LogError error) w))"

definition successTrue :: jsval where
  "successTrue = JObj [(''success'', JBool True)]"

definition createAgent :: "'g gateway \<Rightarrow> ctx \<Rightarrow> jsval \<Rightarrow> 'g world \<Rightarrow> 'g outcome" where
  "createAgent gw c input w =
     catchClause ''Error creating agent: %O'' ''Failed to create agent''
       (case callGateway gw c GW_createAgent input
               (log ''createAgent input: %O'' (LogValue input) w) of
          (Inl error, w') \<Rightarrow> (Inl error, w')
        | (Inr response, w') \<Rightarrow> (Inr response, w'))"

definition createAgentVersion :: "'g gateway \<Rightarrow> ctx \<Rightarrow> jsval \<Rightarrow> 'g world \<Rightarrow> 'g outcome" where
  "createAgentVersion gw c input w =
     catchClause ''Error creating agent version: %O'' ''Failed to create agent version''
       (case callGateway gw c GW_createAgentVersion input
               (log ''createAgentVersion input: %O'' (LogValue input) w) of
          (Inl error, w') \<Rightarrow> (Inl error, w')
        | (Inr response, w') \<Rightarrow> (Inr response, w'))"

definition deprecateAgent :: "'g gateway \<Rightarrow> ctx \<Rightarrow> jsval \<Rightarrow> 'g world \<Rightarrow> 'g outcome" where
  "deprecateAgent gw c input w =
     catchClause ''Error deprecating agent: %O'' ''Failed to deprecate agent''
       (case member input ''identifier'' of
          Inl error \<Rightarrow> (Inl error, log ''deprecateAgent input: %O'' (LogValue input) w)
        | Inr identifier \<Rightarrow>
            (case callGateway gw c GW_deprecate identifier
                    (log ''deprecateAgent input: %O'' (LogValue input) w) of
               (Inl error, w') \<Rightarrow> (Inl error, w')
             | (Inr response, w') \<Rightarrow> (Inr (nullish_coalesce response successTrue), w')))"

definition getAgentDetail :: "'g gateway \<Rightarrow> ctx \<Rightarrow> jsval \<Rightarrow> 'g world \<Rightarrow> 'g outcome" where
  "getAgentDetail gw c input w =
     catchClause ''Error getting agent detail: %O'' ''Failed to get agent detail''
       (case member input ''identifier'' of
          Inl error \<Rightarrow> (Inl error, log ''getAgentDetail input: %O'' (LogValue input) w)
        | Inr identifier \<Rightarrow>
            (case callGateway gw c GW_getAgentDetail identifier
                    (log ''getAgentDetail input: %O'' (LogValue input) w) of
               (Inl error, w') \<Rightarrow> (Inl error, w')
             | (Inr response, w') \<Rightarrow> (Inr response, w')))"

definition getOwnAgents :: "'g gateway \<Rightarrow> ctx \<Rightarrow> jsval \<Rightarrow> 'g world \<Rightarrow> 'g outcome" where
  "getOwnAgents gw c input w =
     catchClause ''Error getting own agents: %O'' ''Failed to get own agents''
       (case callGateway gw c GW_getOwnAgents
               (JObj [(''page'', optionalMember input ''page''),
                      (''pageSize'', optionalMember input ''pageSize'')])
               (log ''getOwnAgents input: %O'' (LogValue input) w) of
          (Inl error, w') \<Rightarrow> (Inl error, w')
        | (Inr response, w') \<Rightarrow> (Inr response, w'))"

definition publishAgent :: "'g gateway \<Rightarrow> ctx \<Rightarrow> jsval \<Rightarrow> 'g world \<Rightarrow> 'g outcome" where
  "publishAgent gw c input w =
     catchClause ''Error publishing agent: %O'' ''Failed to publish agent''
       (case member input ''identifier'' of
          Inl error \<Rightarrow> (Inl error, log ''publishAgent input: %O'' (LogValue input) w)
        | Inr identifier \<Rightarrow>
            (case callGateway gw c GW_publish identifier
                    (log ''publishAgent input: %O'' (LogValue input) w) of
               (Inl error, w') \<Rightarrow> (Inl error, w')
             | (Inr response, w') \<Rightarrow> (Inr (nullish_coalesce response successTrue), w')))"

definition unpublishAgent :: "'g gateway \<Rightarrow> ctx \<Rightarrow> jsval \<Rightarrow> 'g world \<Rightarrow> 'g outcome" where
  "unpublishAgent gw c input w =
     catchClause ''Error unpublishing agent: %O'' ''Failed to unpublish agent''
       (case member input ''identifier'' of
          Inl error \<Rightarrow> (Inl error, log ''unpublishAgent input: %O'' (LogValue input) w)
        | Inr identifier \<Rightarrow>
            (case callGateway gw c GW_unpublish identifier
                    (log ''unpublishAgent input: %O'' (LogValue input) w) of
               (Inl error, w') \<Rightarrow> (Inl error, w')
             | (Inr response, w') \<Rightarrow> (Inr (nullish_coalesce response successTrue), w')))"

text \<open>The router record: each operation name is bound to its handler.\<close>

fun resolver :: "operation \<Rightarrow> 'g gateway \<Rightarrow> ctx \<Rightarrow> jsval \<Rightarrow> 'g world \<Rightarrow> 'g outcome" where
  "resolver CreateAgent = createAgent"
| "resolver CreateAgentVersion = createAgentVersion"
| "resolver DeprecateAgent = deprecateAgent"
| "resolver GetAgentDetail = getAgentDetail"
| "resolver GetOwnAgents = getOwnAgents"
| "resolver PublishAgent = publishAgent"
| "resolver UnpublishAgent = unpublishAgent"

section \<open>The procedure around a handler\<close>

text \<open>
  Modelled from the spec: the authorization gate. \<^verbatim>\<open>agentProcedure\<close> is
  \<^verbatim>\<open>authedProcedure.use(serverDatabase).use(marketUserInfo).use(marketSDK)\<close>, and
  these four are imported from \<^verbatim>\<open>@/libs/trpc/lambda\<close>, which is not among the
  sources. The spec (4.2) has the gate resolve the caller's session into an
  authenticated identity, fail with an Unauthenticated error if there is none,
  and otherwise attach the marketplace session to the context of this one call,
  with no other side effect. A session is \<open>None\<close> when it cannot be resolved.
\<close>

definition agentProcedure :: "ctx option \<Rightarrow> trpc_error + ctx" where
  "agentProcedure session =
     (case session of
        None \<Rightarrow>
          Inl \<lparr>error_cause = None, error_code = UNAUTHORIZED, error_message = ''UNAUTHORIZED''\<rparr>
      | Some c \<Rightarrow> Inr c)"

text \<open>
  \<^verbatim>\<open>.input(schema)\<close>: tRPC parses the raw input with the schema before the
  handler runs and answers a failed parse with a \<^verbatim>\<open>BAD_REQUEST\<close> error whose
  cause is the \<^verbatim>\<open>ZodError\<close>.
\<close>

definition parseInput :: "zod_schema \<Rightarrow> jsval \<Rightarrow> trpc_error + jsval" where
  "parseInput s raw =
     (case safeParse s raw of
        Inl issues \<Rightarrow>
          Inl \<lparr>error_cause = Some (ZodError issues), error_code = BAD_REQUEST,
                error_message = zodMessage issues\<rparr>
      | Inr input \<Rightarrow> Inr input)"

text \<open>
  One call of an operation of \<^verbatim>\<open>agentRouter\<close>: the gate, then the input
  parser, then the handler.
\<close>

definition agentRouter ::
  "'g gateway \<Rightarrow> operation \<Rightarrow> ctx option \<Rightarrow> jsval \<Rightarrow> 'g world \<Rightarrow> 'g outcome" where
  "agentRouter gw op session raw w =
     (case agentProcedure session of
        Inl e \<Rightarrow> (Inl e, w)
      | Inr c \<Rightarrow>
          (case parseInput (inputSchema op) raw of
             Inl e \<Rightarrow> (Inl e, w)
           | Inr input \<Rightarrow> resolver op gw c input w))"

text \<open>A sequence of calls of the router, each with its own session and raw input.\<close>

fun runCalls ::
  "'g gateway \<Rightarrow> (operation \<times> ctx option \<times> jsval) list \<Rightarrow> 'g world \<Rightarrow> 'g world" where
  "runCalls gw [] w = w"
| "runCalls gw ((op, session, raw) # calls) w =
     runCalls gw calls (snd (agentRouter gw op session raw w))"

section \<open>What the handlers do, operation by operation\<close>

text \<open>
  The gateway method named after each operation, the argument its handler
  sends, the text its handler falls back to, and the three transition
  operations. \<open>resolver_result\<close>, \<open>resolver_calls\<close> and \<open>resolver_state\<close> below
  prove that the handlers agree with this table.
\<close>

fun namedMethod :: "operation \<Rightarrow> gateway_method" where
  "namedMethod CreateAgent = GW_createAgent"
| "namedMethod CreateAgentVersion = GW_createAgentVersion"
| "namedMethod DeprecateAgent = GW_deprecate"
| "namedMethod GetAgentDetail = GW_getAgentDetail"
| "namedMethod GetOwnAgents = GW_getOwnAgents"
| "namedMethod PublishAgent = GW_publish"
| "namedMethod UnpublishAgent = GW_unpublish"

fun sentArgument :: "operation \<Rightarrow> jsval \<Rightarrow> jsval" where
  "sentArgument CreateAgent input = input"
| "sentArgument CreateAgentVersion input = input"
| "sentArgument GetOwnAgents input =
     JObj [(''page'', optionalMember input ''page''),
           (''pageSize'', optionalMember input ''pageSize'')]"
| "sentArgument DeprecateAgent input = optionalMember input ''identifier''"
| "sentArgument GetAgentDetail input = optionalMember input ''identifier''"
| "sentArgument PublishAgent input = optionalMember input ''identifier''"
| "sentArgument UnpublishAgent input = optionalMember input ''identifier''"

fun fallbackMessage :: "operation \<Rightarrow> string" where
  "fallbackMessage CreateAgent = ''Failed to create agent''"
| "fallbackMessage CreateAgentVersion = ''Failed to create agent version''"
| "fallbackMessage DeprecateAgent = ''Failed to deprecate agent''"
| "fallbackMessage GetAgentDetail = ''Failed to get agent detail''"
| "fallbackMessage GetOwnAgents = ''Failed to get own agents''"
| "fallbackMessage PublishAgent = ''Failed to publish agent''"
| "fallbackMessage UnpublishAgent = ''Failed to unpublish agent''"

fun isTransition :: "operation \<Rightarrow> bool" where
  "isTransition DeprecateAgent = True"
| "isTransition PublishAgent = True"
| "isTransition UnpublishAgent = True"
| "isTransition op = False"

text \<open>A gateway that answers every call in the same way and keeps no state.\<close>

definition resolving :: "jsval \<Rightarrow> unit gateway" where
  "resolving r = (\<lambda>c m arg g. (Inr r, g))"

definition rejecting :: "thrown \<Rightarrow> unit gateway" where
  "rejecting e = (\<lambda>c m arg g. (Inl e, g))"

text \<open>A gateway whose state is the number of calls it has answered.\<close>

definition counting :: "nat gateway" where
  "counting = (\<lambda>c m arg n. (Inr (JBool True), Suc n))"

definition emptyWorld :: "'g \<Rightarrow> 'g world" where
  "emptyWorld g = \<lparr>gateway_calls = [], debug_log = [], gateway_state = g\<rparr>"

definition identifierInput :: "string \<Rightarrow> jsval" where
  "identifierInput i = JObj [(''identifier'', JStr i)]"

section \<open>What the caller sees of an error\<close>

text \<open>
  Modelled from the spec: the caller-visible error envelope. tRPC's error
  formatter is set up in \<^verbatim>\<open>@/libs/trpc/lambda\<close>, which is not among the sources.
  The spec (4.4, 6) has the envelope carry an error kind and a message, and keeps
  the original error as a diagnostic cause that is not part of the response.
\<close>

record error_envelope =
  envelope_code :: trpc_code
  envelope_message :: string

definition errorEnvelope :: "trpc_error \<Rightarrow> error_envelope" where
  "errorEnvelope e = \<lparr>envelope_code = error_code e, envelope_message = error_message e\<rparr>"

section \<open>Reading a validation result\<close>

text \<open>
  A schema accepts a raw input when its parse finds no issue. The fields an
  error reports are the first keys of its issues' paths.
\<close>

definition accepts :: "zod_schema \<Rightarrow> jsval \<Rightarrow> bool" where
  "accepts s raw = (fst (zparse s [] raw) = [])"

fun isString :: "jsval \<Rightarrow> bool" where
  "isString (JStr s) = True"
| "isString v = False"

fun isBoolean :: "jsval \<Rightarrow> bool" where
  "isBoolean (JBool b) = True"
| "isBoolean v = False"

fun isNumber :: "jsval \<Rightarrow> bool" where
  "isNumber (JNum n) = (n \<noteq> NaN)"
| "isNumber v = False"

fun isOneOf :: "string list \<Rightarrow> jsval \<Rightarrow> bool" where
  "isOneOf options (JStr s) = (s \<in> set options)"
| "isOneOf options v = False"

definition absentOr :: "(jsval \<Rightarrow> bool) \<Rightarrow> jsval \<Rightarrow> bool" where
  "absentOr P v = (v = JUndefined \<or> P v)"

fun shapeOf :: "zod_schema \<Rightarrow> (string \<times> zod_schema) list" where
  "shapeOf (ZObject shape) = shape"
| "shapeOf (ZOptional s) = shapeOf s"
| "shapeOf s = []"

text \<open>
  What each schema admits, said of the value alone and without the parser: a
  string, a number other than \<^verbatim>\<open>NaN\<close>, a boolean, anything, one of the listed
  strings, \<^verbatim>\<open>undefined\<close> or what the inner schema admits, an array of admitted
  elements, an object of admitted values, an object whose property under each
  key of the shape is admitted (a missing property reads as \<^verbatim>\<open>undefined\<close>). The
  invalid fields of an object are the keys of the shape whose value is not
  admitted.
\<close>

fun conforms :: "zod_schema \<Rightarrow> jsval \<Rightarrow> bool" where
  "conforms ZString v = isString v"
| "conforms ZNumber v = isNumber v"
| "conforms ZBoolean v = isBoolean v"
| "conforms ZAny v = True"
| "conforms (ZEnum options) v = isOneOf options v"
| "conforms (ZOptional s) v = (v = JUndefined \<or> conforms s v)"
| "conforms (ZArray s) v = (case v of JArr xs \<Rightarrow> (\<forall>x \<in> set xs. conforms s x) | _ \<Rightarrow> False)"
| "conforms (ZRecord s) v =
     (case v of JObj kvs \<Rightarrow> (\<forall>x \<in> set (map snd kvs). conforms s x) | _ \<Rightarrow> False)"
| "conforms (ZObject shape) v =
     (case v of
        JObj kvs \<Rightarrow> (\<forall>(k, s) \<in> set shape. conforms s (getProp kvs k))
      | _ \<Rightarrow> False)"

definition invalidFields :: "(string \<times> zod_schema) list \<Rightarrow> (string \<times> jsval) list \<Rightarrow> string list" where
  "invalidFields shape kvs =
     map fst (filter (\<lambda>(k, s). \<not> conforms s (getProp kvs k)) shape)"

fun reportedField :: "zod_issue \<Rightarrow> string list" where
  "reportedField i = (case issue_path i of Key k # rest \<Rightarrow> [k] | _ \<Rightarrow> [])"

definition reportedFields :: "zod_issue list \<Rightarrow> string list" where
  "reportedFields issues = concat (map reportedField issues)"

section \<open>The marketplace of the specification\<close>

text \<open>
  Modelled from the spec: the Marketplace Gateway. The SDK behind
  \<^verbatim>\<open>ctx.marketSDK.agents\<close> and the catalog it talks to are not among the
  sources. The spec (3, 4.3) gives the catalog its data model and its rules: an
  agent has a name, a status among published, unpublished, archived and
  deprecated, an optional visibility and one owner; \<^verbatim>\<open>publish\<close> and
  \<^verbatim>\<open>unpublish\<close> fail with NotFound on an unknown identifier and with Conflict
  on a deprecated agent, and otherwise set the status; \<^verbatim>\<open>deprecate\<close> fails
  with NotFound on an unknown identifier and otherwise sets the status to
  deprecated; \<^verbatim>\<open>createAgent\<close> fails with Conflict on an identifier that exists
  and otherwise records the agent for the caller, unpublished unless a status
  is given; \<^verbatim>\<open>createAgentVersion\<close> fails with NotFound on an unknown identifier,
  records the version and makes it current when \<^verbatim>\<open>setAsCurrent\<close> is true;
  \<^verbatim>\<open>getAgentDetail\<close> fails with NotFound on an unknown identifier and with
  Forbidden on a private or internal agent of another account;
  \<^verbatim>\<open>getOwnAgents\<close> returns the caller's agents in creation order.
\<close>

datatype status = Published | Unpublished | Archived | Deprecated

datatype visibility = Public | Private | Internal

record agent =
  agentName :: string
  agentStatus :: status
  agentVisibility :: "visibility option"
  agentOwner :: string

record market =
  agents :: "(string \<times> agent) list"
  versions :: "(string \<times> jsval) list"
  currentVersion :: "(string \<times> nat) list"

fun statusName :: "status \<Rightarrow> string" where
  "statusName Published = ''published''"
| "statusName Unpublished = ''unpublished''"
| "statusName Archived = ''archived''"
| "statusName Deprecated = ''deprecated''"

definition statusOfJs :: "jsval \<Rightarrow> status option" where
  "statusOfJs v =
     (if v = JStr ''published'' then Some Published
      else if v = JStr ''unpublished'' then Some Unpublished
      else if v = JStr ''archived'' then Some Archived
      else if v = JStr ''deprecated'' then Some Deprecated
      else None)"

definition visibilityOfJs :: "jsval \<Rightarrow> visibility option" where
  "visibilityOfJs v =
     (if v = JStr ''public'' then Some Public
      else if v = JStr ''private'' then Some Private
      else if v = JStr ''internal'' then Some Internal
      else None)"

definition agentToJs :: "string \<Rightarrow> agent \<Rightarrow> jsval" where
  "agentToJs i a =
     JObj [(''identifier'', JStr i), (''name'', JStr (agentName a)),
           (''status'', JStr (statusName (agentStatus a)))]"

definition setStatus :: "string \<Rightarrow> status \<Rightarrow> market \<Rightarrow> market" where
  "setStatus i s m =
     m\<lparr>agents := map (\<lambda>(k, a). if k = i then (k, a\<lparr>agentStatus := s\<rparr>) else (k, a)) (agents m)\<rparr>"

definition notFound :: thrown where
  "notFound = ErrorObject ''NotFound'' ''Agent not found''"

definition conflict :: "string \<Rightarrow> thrown" where
  "conflict msg = ErrorObject ''Conflict'' msg"

definition badArgument :: thrown where
  "badArgument = ErrorObject ''ValidationError'' ''Invalid argument''"

text \<open>
  Modelled from the spec: the three transitions of the gateway (4.3); a
  transition out of deprecated is a Conflict, deprecating again succeeds.
\<close>

definition transition :: "status \<Rightarrow> jsval \<Rightarrow> market \<Rightarrow> (thrown + jsval) \<times> market" where
  "transition target arg m =
     (case arg of
        JStr i \<Rightarrow>
          (case map_of (agents m) i of
             None \<Rightarrow> (Inl notFound, m)
           | Some a \<Rightarrow>
               if agentStatus a = Deprecated \<and> target \<noteq> Deprecated
               then (Inl (conflict ''Agent is deprecated''), m)
               else (Inr (JObj [(''success'', JBool True)]), setStatus i target m))
      | _ \<Rightarrow> (Inl badArgument, m))"

text \<open>Modelled from the spec: the seven methods of the gateway (4.3).\<close>

fun marketplace :: "market gateway" where
  "marketplace c GW_publish arg m = transition Published arg m"
| "marketplace c GW_unpublish arg m = transition Unpublished arg m"
| "marketplace c GW_deprecate arg m = transition Deprecated arg m"
| "marketplace c GW_createAgent arg m =
     (case arg of
        JObj kvs \<Rightarrow>
          (case getProp kvs ''identifier'' of
             JStr i \<Rightarrow>
               (case getProp kvs ''name'' of
                  JStr n \<Rightarrow>
                    (case map_of (agents m) i of
                       Some a \<Rightarrow> (Inl (conflict ''Agent already exists''), m)
                     | None \<Rightarrow>
                         (Inr (agentToJs i
                                \<lparr>agentName = n,
                                 agentStatus = (case statusOfJs (getProp kvs ''status'') of
                                                  None \<Rightarrow> Unpublished | Some s \<Rightarrow> s),
                                 agentVisibility = visibilityOfJs (getProp kvs ''visibility''),
                                 agentOwner = userId c\<rparr>),
                          m\<lparr>agents := agents m @
                               [(i, \<lparr>agentName = n,
                                     agentStatus = (case statusOfJs (getProp kvs ''status'') of
                                                      None \<Rightarrow> Unpublished | Some s \<Rightarrow> s),
                                     agentVisibility = visibilityOfJs (getProp kvs ''visibility''),
                                     agentOwner = userId c\<rparr>)]\<rparr>))
                | _ \<Rightarrow> (Inl badArgument, m))
           | _ \<Rightarrow> (Inl badArgument, m))
      | _ \<Rightarrow> (Inl badArgument, m))"
| "marketplace c GW_createAgentVersion arg m =
     (case arg of
        JObj kvs \<Rightarrow>
          (case getProp kvs ''identifier'' of
             JStr i \<Rightarrow>
               (case map_of (agents m) i of
                  None \<Rightarrow> (Inl notFound, m)
                | Some a \<Rightarrow>
                    (Inr (JObj ((''version'', JNum (Finite (real (length (versions m))))) # kvs)),
                     m\<lparr>versions := versions m @ [(i, arg)],
                       currentVersion :=
                         (if getProp kvs ''setAsCurrent'' = JBool True
                          then (i, length (versions m)) # filter (\<lambda>(k, n). k \<noteq> i) (currentVersion m)
                          else currentVersion m)\<rparr>))
           | _ \<Rightarrow> (Inl badArgument, m))
      | _ \<Rightarrow> (Inl badArgument, m))"
| "marketplace c GW_getAgentDetail arg m =
     (case arg of
        JStr i \<Rightarrow>
          (case map_of (agents m) i of
             None \<Rightarrow> (Inl notFound, m)
           | Some a \<Rightarrow>
               if agentVisibility a \<in> {Some Private, Some Internal} \<and> agentOwner a \<noteq> userId c
               then (Inl (ErrorObject ''Forbidden'' ''Not allowed to read this agent''), m)
               else (Inr (agentToJs i a), m))
      | _ \<Rightarrow> (Inl badArgument, m))"
| "marketplace c GW_getOwnAgents arg m =
     (Inr (JObj [(''items'',
                  JArr (map (\<lambda>(i, a). agentToJs i a)
                          (filter (\<lambda>(i, a). agentOwner a = userId c) (agents m))))]),
      m)"

text \<open>The status the marketplace holds for an identifier.\<close>

definition statusOf :: "market world \<Rightarrow> string \<Rightarrow> status option" where
  "statusOf w i = map_option agentStatus (map_of (agents (gateway_state w)) i)"

text \<open>A marketplace that holds one published agent \<^verbatim>\<open>a1\<close> of the account \<^verbatim>\<open>u1\<close>.\<close>

definition oneAgentMarket :: market where
  "oneAgentMarket =
     \<lparr>agents = [(''a1'', \<lparr>agentName = ''Test'', agentStatus = Published,
                           agentVisibility = None, agentOwner = ''u1''\<rparr>)],
      versions = [], currentVersion = []\<rparr>"

section \<open>Facts about validated inputs and the handlers\<close>

text \<open>
  An input that passed an object schema is an object, so reading a property of
  it cannot throw.
\<close>

lemma zparse_object_output:
  "zparse (ZObject shape) p raw = (iss, v) \<Longrightarrow> iss = [] \<Longrightarrow> \<exists>kvs. v = JObj kvs"
  by (cases raw) (auto simp: mergeObject_def)

lemma validated_object:
  assumes "safeParse (inputSchema op) raw = Inr input" "op \<noteq> GetOwnAgents"
  shows "\<exists>kvs. input = JObj kvs"
proof -
  obtain shape where s: "inputSchema op = ZObject shape"
    using assms(2) by (cases op) (auto simp: createAgentSchema_def createAgentVersionSchema_def identifierSchema_def)
  obtain iss v where z: "zparse (ZObject shape) [] raw = (iss, v)" by (cases "zparse (ZObject shape) [] raw")
  with assms(1) s have "iss = []" "v = input" by (auto simp: safeParse_def split: if_splits)
  with zparse_object_output[OF z] show ?thesis by auto
qed

lemma member_object: "member (JObj kvs) k = Inr (optionalMember (JObj kvs) k)"
  by (simp add: member_def optionalMember_def nullish_def)

lemma identifierInput_valid:
  "safeParse identifierSchema (identifierInput i) = Inr (identifierInput i)"
  by (simp add: safeParse_def identifierSchema_def identifierInput_def mergeObject_def
        getProp_def has_prop_def)

lemma accepts_safeParse:
  "accepts s raw \<longleftrightarrow> (\<exists>input. safeParse s raw = Inr input)"
  by (auto simp: accepts_def safeParse_def split: prod.splits)

lemma rejects_safeParse:
  "\<not> accepts s raw \<Longrightarrow> safeParse s raw = Inl (fst (zparse s [] raw))"
  by (auto simp: accepts_def safeParse_def split: prod.splits)

lemma agentRouter_valid:
  "safeParse (inputSchema op) raw = Inr input \<Longrightarrow>
   agentRouter gw op (Some c) raw w = resolver op gw c input w"
  by (simp add: agentRouter_def agentProcedure_def parseInput_def)

text \<open>
  On a validated input every handler applies the gateway once, to the method
  named after its operation and the argument of the table above: the outcome of
  that application is what the handler returns or throws, its state is the
  state the handler leaves, and it is the one entry the handler adds to the
  trace. A caught value is the last thing written to the debug log.
\<close>

lemma resolver_result:
  assumes "safeParse (inputSchema op) raw = Inr input"
  shows "fst (resolver op gw c input w) =
     (case fst (gw c (namedMethod op) (sentArgument op input) (gateway_state w)) of
        Inl e \<Rightarrow> Inl (newTRPCError e INTERNAL_SERVER_ERROR (messageOr e (fallbackMessage op)))
      | Inr r \<Rightarrow> Inr (if isTransition op then nullish_coalesce r successTrue else r))"
proof (cases "op = GetOwnAgents")
  case True
  then show ?thesis
    by (simp add: getOwnAgents_def catchClause_def callGateway_def log_def split: prod.splits sum.splits)
next
  case False
  with validated_object[OF assms] obtain kvs where "input = JObj kvs" by auto
  then show ?thesis
    by (cases op)
       (simp_all add: createAgent_def createAgentVersion_def deprecateAgent_def getAgentDetail_def
          getOwnAgents_def publishAgent_def unpublishAgent_def member_object
          catchClause_def callGateway_def log_def split: prod.splits sum.splits)
qed

lemma resolver_calls:
  assumes "safeParse (inputSchema op) raw = Inr input"
  shows "gateway_calls (snd (resolver op gw c input w)) =
         gateway_calls w @ [(namedMethod op, sentArgument op input)]"
proof (cases "op = GetOwnAgents")
  case True
  then show ?thesis
    by (simp add: getOwnAgents_def catchClause_def callGateway_def log_def split: prod.splits sum.splits)
next
  case False
  with validated_object[OF assms] obtain kvs where "input = JObj kvs" by auto
  then show ?thesis
    by (cases op)
       (simp_all add: createAgent_def createAgentVersion_def deprecateAgent_def getAgentDetail_def
          getOwnAgents_def publishAgent_def unpublishAgent_def member_object
          catchClause_def callGateway_def log_def split: prod.splits sum.splits)
qed

lemma resolver_state:
  assumes "safeParse (inputSchema op) raw = Inr input"
  shows "gateway_state (snd (resolver op gw c input w)) =
         snd (gw c (namedMethod op) (sentArgument op input) (gateway_state w))"
proof (cases "op = GetOwnAgents")
  case True
  then show ?thesis
    by (simp add: getOwnAgents_def catchClause_def callGateway_def log_def split: prod.splits sum.splits)
next
  case False
  with validated_object[OF assms] obtain kvs where "input = JObj kvs" by auto
  then show ?thesis
    by (cases op)
       (simp_all add: createAgent_def createAgentVersion_def deprecateAgent_def getAgentDetail_def
          getOwnAgents_def publishAgent_def unpublishAgent_def member_object
          catchClause_def callGateway_def log_def split: prod.splits sum.splits)
qed

lemma resolver_log:
  assumes "safeParse (inputSchema op) raw = Inr input"
    and "fst (gw c (namedMethod op) (sentArgument op input) (gateway_state w)) = Inl e"
  shows "\<exists>logText. last (debug_log (snd (resolver op gw c input w))) = (logText, LogError e)"
proof (cases "op = GetOwnAgents")
  case True
  with assms(2) show ?thesis
    by (auto simp: getOwnAgents_def catchClause_def callGateway_def log_def split: prod.splits sum.splits)
next
  case False
  with validated_object[OF assms(1)] obtain kvs where "input = JObj kvs" by auto
  with assms(2) show ?thesis
    by (cases op)
       (auto simp: createAgent_def createAgentVersion_def deprecateAgent_def getAgentDetail_def
          getOwnAgents_def publishAgent_def unpublishAgent_def member_object
          catchClause_def callGateway_def log_def split: prod.splits sum.splits)
qed

text \<open>
  Whatever the input, an error leaves a handler only through its \<^verbatim>\<open>catch\<close>
  clause.
\<close>

lemma zodMessage_nonempty: "zodMessage issues \<noteq> []"
  by (simp add: zodMessage_def jsonArray_def)

lemma fallbackMessage_nonempty: "fallbackMessage op \<noteq> []"
  by (cases op) simp_all

lemma messageOr_empty:
  "messageOr e (fallbackMessage op) = [] \<Longrightarrow> \<exists>name. e = ErrorObject name []"
  by (cases e) (simp_all add: fallbackMessage_nonempty)

lemma catchClause_error:
  "fst (catchClause logText fallback attempt) = Inl err \<Longrightarrow>
   \<exists>e. err = newTRPCError e INTERNAL_SERVER_ERROR (messageOr e fallback)"
  by (auto simp: catchClause_def split: prod.splits sum.splits)

lemma resolver_error:
  assumes "fst (resolver op gw c input w) = Inl err"
  shows "\<exists>e. err = newTRPCError e INTERNAL_SERVER_ERROR (messageOr e (fallbackMessage op))"
  using assms
  by (cases op)
     (auto simp: createAgent_def createAgentVersion_def deprecateAgent_def getAgentDetail_def
        getOwnAgents_def publishAgent_def unpublishAgent_def dest: catchClause_error)

section \<open>Results of the gateway\<close>

text \<open>
  C2, as stated, fails: \<^verbatim>\<open>publishAgent\<close> on the valid input
  \<^verbatim>\<open>{ identifier: "a1" }\<close>, with a gateway that resolves with \<^verbatim>\<open>null\<close> (which is
  neither absent nor \<^verbatim>\<open>undefined\<close>), does not return \<^verbatim>\<open>null\<close> unchanged.
\<close>

theorem publish_null_result_not_unchanged:
  "safeParse (inputSchema PublishAgent) (identifierInput ''a1'') = Inr (identifierInput ''a1'')
   \<and> fst (resolving JNull \<lparr>userId = ''u1''\<rparr> (namedMethod PublishAgent)
           (sentArgument PublishAgent (identifierInput ''a1'')) ()) = Inr JNull
   \<and> JNull \<noteq> JUndefined
   \<and> fst (resolver PublishAgent (resolving JNull) \<lparr>userId = ''u1''\<rparr>
           (identifierInput ''a1'') (emptyWorld ())) \<noteq> Inr JNull"
proof -
  have "safeParse (inputSchema PublishAgent) (identifierInput ''a1'') = Inr (identifierInput ''a1'')"
    by (simp add: identifierInput_valid)
  moreover have "fst (resolving JNull \<lparr>userId = ''u1''\<rparr> (namedMethod PublishAgent)
           (sentArgument PublishAgent (identifierInput ''a1'')) ()) = Inr JNull"
    by (simp add: resolving_def)
  moreover have "fst (resolver PublishAgent (resolving JNull) \<lparr>userId = ''u1''\<rparr>
           (identifierInput ''a1'') (emptyWorld ())) \<noteq> Inr JNull"
    by (simp add: resolving_def publishAgent_def identifierInput_def
        member_def getProp_def catchClause_def callGateway_def log_def emptyWorld_def
        nullish_coalesce_def nullish_def successTrue_def)
  ultimately show ?thesis by simp
qed

text \<open>
  C2, amended: for every operation and every validated input, a value the
  gateway resolves with is returned unchanged, except that the three transition
  operations replace an \<^verbatim>\<open>undefined\<close> or \<^verbatim>\<open>null\<close> result with
  \<^verbatim>\<open>{ success: true }\<close>.
\<close>

theorem success_passed_through_unless_nullish_transition:
  assumes "safeParse (inputSchema op) raw = Inr input"
    and "fst (gw c (namedMethod op) (sentArgument op input) (gateway_state w)) = Inr r"
  shows "fst (resolver op gw c input w) =
           Inr (if isTransition op \<and> (r = JUndefined \<or> r = JNull)
                then JObj [(''success'', JBool True)] else r)"
  using resolver_result[OF assms(1), of gw c w] assms(2)
  by (auto simp: nullish_coalesce_def nullish_def successTrue_def)

theorem success_passed_through_unless_nullish_transition_witness:
  "fst (resolver DeprecateAgent (resolving (JObj [(''success'', JBool False)])) \<lparr>userId = ''u1''\<rparr>
         (identifierInput ''a1'') (emptyWorld ())) = Inr (JObj [(''success'', JBool False)])"
  using success_passed_through_unless_nullish_transition[of DeprecateAgent "identifierInput ''a1''"
      "identifierInput ''a1''" "resolving (JObj [(''success'', JBool False)])"
      "\<lparr>userId = ''u1''\<rparr>" "emptyWorld ()" "JObj [(''success'', JBool False)]"]
  by (simp add: identifierInput_valid resolving_def)

text \<open>
  C10: for \<^verbatim>\<open>publishAgent\<close>, \<^verbatim>\<open>unpublishAgent\<close> and \<^verbatim>\<open>deprecateAgent\<close>, a
  gateway result that is \<^verbatim>\<open>null\<close> is coerced into \<^verbatim>\<open>{ success: true }\<close> just as
  \<^verbatim>\<open>undefined\<close> is, and any other result is returned unchanged.
\<close>

theorem transition_nullish_result_coerced:
  assumes "op = PublishAgent \<or> op = UnpublishAgent \<or> op = DeprecateAgent"
    and "safeParse (inputSchema op) raw = Inr input"
    and "fst (gw c (namedMethod op) (sentArgument op input) (gateway_state w)) = Inr r"
  shows "fst (resolver op gw c input w) =
           Inr (if r = JNull \<or> r = JUndefined then JObj [(''success'', JBool True)] else r)"
  using resolver_result[OF assms(2), of gw c w] assms(1,3)
  by (auto simp: nullish_coalesce_def nullish_def successTrue_def)

theorem transition_nullish_result_coerced_witness:
  "fst (resolver UnpublishAgent (resolving JNull) \<lparr>userId = ''u1''\<rparr>
         (identifierInput ''a1'') (emptyWorld ())) = Inr (JObj [(''success'', JBool True)])"
  using transition_nullish_result_coerced[of UnpublishAgent "identifierInput ''a1''"
      "identifierInput ''a1''" "resolving JNull" "\<lparr>userId = ''u1''\<rparr>" "emptyWorld ()" JNull]
  by (simp add: identifierInput_valid resolving_def)

section \<open>Errors of the gateway\<close>

text \<open>
  C3, as stated, fails twice. When the gateway rejects with an \<^verbatim>\<open>Error\<close> that was
  given no message (\<^verbatim>\<open>new Error()\<close>, whose message is the empty string),
  \<^verbatim>\<open>publishAgent\<close> throws an error with the empty message, not with its own
  text. When the gateway rejects with \<^verbatim>\<open>null\<close>, the error \<^verbatim>\<open>publishAgent\<close> throws
  has no cause: the thrown value is not retained in it.
\<close>

theorem empty_message_not_replaced:
  "safeParse (inputSchema PublishAgent) (identifierInput ''a1'') = Inr (identifierInput ''a1'')
   \<and> fst (resolver PublishAgent (rejecting (ErrorObject ''Error'' [])) \<lparr>userId = ''u1''\<rparr>
           (identifierInput ''a1'') (emptyWorld ())) =
       Inl \<lparr>error_cause = Some (Original (ErrorObject ''Error'' [])),
            error_code = INTERNAL_SERVER_ERROR, error_message = []\<rparr>
   \<and> fallbackMessage PublishAgent = ''Failed to publish agent''
   \<and> fst (resolver PublishAgent (rejecting (Thrown JNull)) \<lparr>userId = ''u1''\<rparr>
           (identifierInput ''a1'') (emptyWorld ())) =
       Inl \<lparr>error_cause = None, error_code = INTERNAL_SERVER_ERROR,
            error_message = ''Failed to publish agent''\<rparr>"
proof -
  have "fst (resolver PublishAgent (rejecting (ErrorObject ''Error'' [])) \<lparr>userId = ''u1''\<rparr>
           (identifierInput ''a1'') (emptyWorld ())) =
       Inl \<lparr>error_cause = Some (Original (ErrorObject ''Error'' [])),
            error_code = INTERNAL_SERVER_ERROR, error_message = []\<rparr>"
    by (simp add: publishAgent_def identifierInput_def member_def getProp_def catchClause_def
          callGateway_def rejecting_def log_def emptyWorld_def newTRPCError_def)
  moreover have "fst (resolver PublishAgent (rejecting (Thrown JNull)) \<lparr>userId = ''u1''\<rparr>
           (identifierInput ''a1'') (emptyWorld ())) =
       Inl \<lparr>error_cause = None, error_code = INTERNAL_SERVER_ERROR,
            error_message = ''Failed to publish agent''\<rparr>"
    by (simp add: publishAgent_def identifierInput_def member_def getProp_def catchClause_def
          callGateway_def rejecting_def log_def emptyWorld_def newTRPCError_def)
  ultimately show ?thesis by (simp add: identifierInput_valid)
qed

text \<open>
  C3, amended: for every operation, every validated input and every value \<open>e\<close>
  the gateway throws, the handler throws a \<^verbatim>\<open>TRPCError\<close> with the code
  \<^verbatim>\<open>INTERNAL_SERVER_ERROR\<close> and with a message that is the message of \<open>e\<close>, as it
  is, when \<open>e\<close> is an \<^verbatim>\<open>Error\<close> instance, and the operation's own non-empty text
  when \<open>e\<close> is any other value. \<open>e\<close> is kept for diagnostics: it is written to
  the debug log as it is, and the cause of the thrown error is what
  \<open>getCauseFromUnknown\<close> makes of it, which is \<open>e\<close> itself exactly when \<open>e\<close> is an
  \<^verbatim>\<open>Error\<close> instance. The envelope the caller sees carries the code and the
  message only, so of \<open>e\<close> nothing but the message of an \<^verbatim>\<open>Error\<close> instance
  reaches the caller.
\<close>

theorem gateway_error_is_normalized:
  assumes "safeParse (inputSchema op) raw = Inr input"
    and "fst (gw c (namedMethod op) (sentArgument op input) (gateway_state w)) = Inl e"
  shows "\<exists>err logText.
           fst (resolver op gw c input w) = Inl err
         \<and> error_code err = INTERNAL_SERVER_ERROR
         \<and> error_message err =
              (case e of ErrorObject name msg \<Rightarrow> msg | Thrown v \<Rightarrow> fallbackMessage op)
         \<and> fallbackMessage op \<noteq> []
         \<and> last (debug_log (snd (resolver op gw c input w))) = (logText, LogError e)
         \<and> error_cause err = getCauseFromUnknown e
         \<and> (if instanceofError e then error_cause err = Some (Original e)
              else error_cause err \<noteq> Some (Original e))
         \<and> errorEnvelope err =
              \<lparr>envelope_code = INTERNAL_SERVER_ERROR,
               envelope_message =
                 (case e of ErrorObject name msg \<Rightarrow> msg | Thrown v \<Rightarrow> fallbackMessage op)\<rparr>"
proof -
  let ?err = "newTRPCError e INTERNAL_SERVER_ERROR (messageOr e (fallbackMessage op))"
  have r: "fst (resolver op gw c input w) = Inl ?err"
    using resolver_result[OF assms(1), of gw c w] assms(2) by simp
  from resolver_log[of op raw input gw c w e] assms obtain logText
    where l: "last (debug_log (snd (resolver op gw c input w))) = (logText, LogError e)" by blast
  have m: "messageOr e (fallbackMessage op) =
             (case e of ErrorObject name msg \<Rightarrow> msg | Thrown v \<Rightarrow> fallbackMessage op)"
    by (cases e) simp_all
  have c: "if instanceofError e then getCauseFromUnknown e = Some (Original e)
           else getCauseFromUnknown e \<noteq> Some (Original e)"
  proof (cases e)
    case (ErrorObject name msg)
    then show ?thesis by simp
  next
    case (Thrown v)
    then show ?thesis by (cases v) simp_all
  qed
  have "error_code ?err = INTERNAL_SERVER_ERROR"
    and "error_message ?err =
           (case e of ErrorObject name msg \<Rightarrow> msg | Thrown v \<Rightarrow> fallbackMessage op)"
    and "error_cause ?err = getCauseFromUnknown e"
    and "errorEnvelope ?err =
           \<lparr>envelope_code = INTERNAL_SERVER_ERROR,
            envelope_message =
              (case e of ErrorObject name msg \<Rightarrow> msg | Thrown v \<Rightarrow> fallbackMessage op)\<rparr>"
    using m by (simp_all add: newTRPCError_def errorEnvelope_def)
  with r l c fallbackMessage_nonempty[of op] show ?thesis
    by (intro exI[of _ ?err] exI[of _ logText]) (simp split: if_splits)
qed

theorem gateway_error_is_normalized_witness:
  "\<exists>err logText.
      fst (resolver GetAgentDetail (rejecting (Thrown (JStr ''boom''))) \<lparr>userId = ''u1''\<rparr>
             (identifierInput ''a1'') (emptyWorld ())) = Inl err
    \<and> error_code err = INTERNAL_SERVER_ERROR
    \<and> error_message err = ''Failed to get agent detail''
    \<and> last (debug_log (snd (resolver GetAgentDetail (rejecting (Thrown (JStr ''boom'')))
             \<lparr>userId = ''u1''\<rparr> (identifierInput ''a1'') (emptyWorld ())))) =
          (logText, LogError (Thrown (JStr ''boom'')))
    \<and> error_cause err = Some (ErrorOfString (JStr ''boom''))
    \<and> errorEnvelope err =
          \<lparr>envelope_code = INTERNAL_SERVER_ERROR,
           envelope_message = ''Failed to get agent detail''\<rparr>"
proof -
  have v: "safeParse (inputSchema GetAgentDetail) (identifierInput ''a1'') =
             Inr (identifierInput ''a1'')"
    by (simp add: identifierInput_valid)
  have g: "fst (rejecting (Thrown (JStr ''boom'')) \<lparr>userId = ''u1''\<rparr> (namedMethod GetAgentDetail)
                 (sentArgument GetAgentDetail (identifierInput ''a1''))
                 (gateway_state (emptyWorld ()))) = Inl (Thrown (JStr ''boom''))"
    by (simp add: rejecting_def)
  from gateway_error_is_normalized[of GetAgentDetail "identifierInput ''a1''" "identifierInput ''a1''"
      "rejecting (Thrown (JStr ''boom''))" "\<lparr>userId = ''u1''\<rparr>" "emptyWorld ()"
      "Thrown (JStr ''boom'')"] v g
  show ?thesis by auto
qed

text \<open>
  C9: for every operation and every value the gateway throws, of whatever kind,
  the code of the error the handler throws is \<^verbatim>\<open>INTERNAL_SERVER_ERROR\<close>.
\<close>

theorem gateway_error_code_is_internal_server_error:
  assumes "safeParse (inputSchema op) raw = Inr input"
    and "fst (gw c (namedMethod op) (sentArgument op input) (gateway_state w)) = Inl e"
  shows "\<exists>err. fst (resolver op gw c input w) = Inl err \<and> error_code err = INTERNAL_SERVER_ERROR"
  using resolver_result[OF assms(1), of gw c w] assms(2) by (simp add: newTRPCError_def)

theorem gateway_error_code_is_internal_server_error_witness:
  "\<exists>err. fst (resolver PublishAgent (rejecting (ErrorObject ''NotFound'' ''no such agent''))
               \<lparr>userId = ''u1''\<rparr> (identifierInput ''a1'') (emptyWorld ())) = Inl err
         \<and> error_code err = INTERNAL_SERVER_ERROR"
  using gateway_error_code_is_internal_server_error[of PublishAgent "identifierInput ''a1''"
      "identifierInput ''a1''" "rejecting (ErrorObject ''NotFound'' ''no such agent'')"
      "\<lparr>userId = ''u1''\<rparr>" "emptyWorld ()" "ErrorObject ''NotFound'' ''no such agent''"]
  by (simp add: identifierInput_valid rejecting_def)

text \<open>
  C8, as stated, fails: when the gateway rejects with an \<^verbatim>\<open>Error\<close> whose message
  is the empty string (\<^verbatim>\<open>new Error()\<close>), \<^verbatim>\<open>getAgentDetail\<close> surfaces an error
  whose message is empty.
\<close>

theorem empty_error_message_surfaced:
  "fst (agentRouter (rejecting (ErrorObject ''Error'' [])) GetAgentDetail (Some \<lparr>userId = ''u1''\<rparr>)
          (identifierInput ''a1'') (emptyWorld ())) =
     Inl \<lparr>error_cause = Some (Original (ErrorObject ''Error'' [])),
          error_code = INTERNAL_SERVER_ERROR, error_message = []\<rparr>"
proof -
  have "agentRouter (rejecting (ErrorObject ''Error'' [])) GetAgentDetail (Some \<lparr>userId = ''u1''\<rparr>)
          (identifierInput ''a1'') (emptyWorld ()) =
        resolver GetAgentDetail (rejecting (ErrorObject ''Error'' [])) \<lparr>userId = ''u1''\<rparr>
          (identifierInput ''a1'') (emptyWorld ())"
    by (rule agentRouter_valid) (simp add: identifierInput_valid)
  then show ?thesis
    by (simp add: getAgentDetail_def identifierInput_def member_def getProp_def catchClause_def
          callGateway_def rejecting_def log_def emptyWorld_def newTRPCError_def)
qed

text \<open>
  C8, amended: every error an operation surfaces is a structured error with a
  code fixed by where it arose (\<^verbatim>\<open>UNAUTHORIZED\<close> without a session,
  \<^verbatim>\<open>BAD_REQUEST\<close> on an input the schema rejects, \<^verbatim>\<open>INTERNAL_SERVER_ERROR\<close>
  from the handler) and a message string, which is non-empty unless the value
  caught by the handler is an \<^verbatim>\<open>Error\<close> instance whose own message is empty.
\<close>

theorem surfaced_error_is_structured:
  assumes "fst (agentRouter gw op session raw w) = Inl err"
  shows "error_code err =
           (if session = None then UNAUTHORIZED
            else if \<not> accepts (inputSchema op) raw then BAD_REQUEST
            else INTERNAL_SERVER_ERROR)
         \<and> (error_message err = [] \<longrightarrow> (\<exists>name. error_cause err = Some (Original (ErrorObject name []))))"
proof (cases session)
  case None
  with assms show ?thesis by (auto simp: agentRouter_def agentProcedure_def)
next
  case (Some c)
  show ?thesis
  proof (cases "accepts (inputSchema op) raw")
    case False
    from rejects_safeParse[OF this] Some assms show ?thesis
      using False by (auto simp: agentRouter_def agentProcedure_def parseInput_def zodMessage_nonempty)
  next
    case True
    then obtain input where i: "safeParse (inputSchema op) raw = Inr input"
      by (auto simp: accepts_safeParse)
    with Some assms have "fst (resolver op gw c input w) = Inl err"
      by (simp add: agentRouter_def agentProcedure_def parseInput_def)
    from resolver_error[OF this] obtain e where
      "err = newTRPCError e INTERNAL_SERVER_ERROR (messageOr e (fallbackMessage op))" by blast
    with True Some show ?thesis by (auto simp: newTRPCError_def dest: messageOr_empty)
  qed
qed

theorem surfaced_error_is_structured_witness:
  "fst (agentRouter (rejecting (Thrown JNull)) GetOwnAgents (Some \<lparr>userId = ''u1''\<rparr>) JUndefined
          (emptyWorld ())) =
     Inl \<lparr>error_cause = None, error_code = INTERNAL_SERVER_ERROR,
          error_message = ''Failed to get own agents''\<rparr>
   \<and> error_code \<lparr>error_cause = None, error_code = INTERNAL_SERVER_ERROR,
          error_message = ''Failed to get own agents''\<rparr> =
       (if Some \<lparr>userId = ''u1''\<rparr> = None then UNAUTHORIZED
        else if \<not> accepts (inputSchema GetOwnAgents) JUndefined then BAD_REQUEST
        else INTERNAL_SERVER_ERROR)"
proof -
  have r: "fst (agentRouter (rejecting (Thrown JNull)) GetOwnAgents (Some \<lparr>userId = ''u1''\<rparr>)
                 JUndefined (emptyWorld ())) =
             Inl \<lparr>error_cause = None, error_code = INTERNAL_SERVER_ERROR,
                  error_message = ''Failed to get own agents''\<rparr>"
    by (simp add: agentRouter_def agentProcedure_def parseInput_def safeParse_def getOwnAgents_def
          catchClause_def callGateway_def rejecting_def log_def emptyWorld_def newTRPCError_def)
  from surfaced_error_is_structured[OF r] r show ?thesis by simp
qed

section \<open>Calls of the gateway\<close>

text \<open>
  C4: on every validated input and for every gateway, the handler of every
  operation makes exactly one gateway call, to the method named after the
  operation, which is one of the seven of \<open>gateway_method\<close>: the trace grows by
  that one entry, the state of the marketplace after the handler is the state
  after that one application of the gateway, and what the handler returns or
  throws is made from the outcome of that one application and from nothing
  else. So a transition operation sends its transition and never reads a status
  first.
\<close>

theorem one_gateway_call_per_operation:
  assumes "safeParse (inputSchema op) raw = Inr input"
  shows "gateway_calls (snd (resolver op gw c input w)) =
           gateway_calls w @ [(namedMethod op, sentArgument op input)]
         \<and> gateway_state (snd (resolver op gw c input w)) =
             snd (gw c (namedMethod op) (sentArgument op input) (gateway_state w))
         \<and> fst (resolver op gw c input w) =
             (case fst (gw c (namedMethod op) (sentArgument op input) (gateway_state w)) of
                Inl e \<Rightarrow>
                  Inl (newTRPCError e INTERNAL_SERVER_ERROR (messageOr e (fallbackMessage op)))
              | Inr r \<Rightarrow> Inr (if isTransition op then nullish_coalesce r successTrue else r))"
  using resolver_calls[OF assms, of gw c w] resolver_state[OF assms, of gw c w]
    resolver_result[OF assms, of gw c w]
  by simp

theorem one_gateway_call_per_operation_witness:
  "gateway_calls (snd (resolver PublishAgent counting \<lparr>userId = ''u1''\<rparr>
         (identifierInput ''a1'') (emptyWorld 0))) = [(GW_publish, JStr ''a1'')]
   \<and> gateway_state (snd (resolver PublishAgent counting \<lparr>userId = ''u1''\<rparr>
         (identifierInput ''a1'') (emptyWorld 0))) = Suc 0
   \<and> fst (resolver PublishAgent counting \<lparr>userId = ''u1''\<rparr>
         (identifierInput ''a1'') (emptyWorld 0)) = Inr (JBool True)"
proof -
  have v: "safeParse (inputSchema PublishAgent) (identifierInput ''a1'') = Inr (identifierInput ''a1'')"
    by (simp add: identifierInput_valid)
  from one_gateway_call_per_operation[OF v, of counting "\<lparr>userId = ''u1''\<rparr>" "emptyWorld 0"]
  show ?thesis
    by (simp add: emptyWorld_def optionalMember_def member_def identifierInput_def getProp_def
          nullish_def counting_def nullish_coalesce_def)
qed

text \<open>
  C5: a call without a session, or with a raw input its schema rejects, ends
  with the \<^verbatim>\<open>UNAUTHORIZED\<close> or \<^verbatim>\<open>BAD_REQUEST\<close> error and leaves the world as
  it was: no gateway call is made.
\<close>

theorem local_errors_reach_no_gateway:
  assumes "session = None \<or> \<not> accepts (inputSchema op) raw"
  shows "\<exists>err. agentRouter gw op session raw w = (Inl err, w)
               \<and> error_code err = (if session = None then UNAUTHORIZED else BAD_REQUEST)
               \<and> gateway_calls (snd (agentRouter gw op session raw w)) = gateway_calls w"
proof (cases session)
  case None
  then show ?thesis by (simp add: agentRouter_def agentProcedure_def)
next
  case (Some c)
  with assms have "\<not> accepts (inputSchema op) raw" by simp
  from rejects_safeParse[OF this] Some show ?thesis
    by (simp add: agentRouter_def agentProcedure_def parseInput_def)
qed

theorem local_errors_reach_no_gateway_witness:
  "\<exists>err. agentRouter (resolving JNull) PublishAgent (Some \<lparr>userId = ''u1''\<rparr>) (JObj [])
            (emptyWorld ()) = (Inl err, emptyWorld ())
         \<and> error_code err = BAD_REQUEST
         \<and> gateway_calls (snd (agentRouter (resolving JNull) PublishAgent (Some \<lparr>userId = ''u1''\<rparr>)
              (JObj []) (emptyWorld ()))) = []"
proof -
  have r: "Some \<lparr>userId = ''u1''\<rparr> = None \<or> \<not> accepts (inputSchema PublishAgent) (JObj [])"
    by (simp add: accepts_def identifierSchema_def mergeObject_def getProp_def)
  from local_errors_reach_no_gateway[OF r, of "resolving JNull" "emptyWorld ()"]
  show ?thesis by (simp add: emptyWorld_def)
qed

section \<open>What the schemas accept\<close>

text \<open>
  Each primitive schema accepts exactly the values of its type, an optional
  schema also accepts \<^verbatim>\<open>undefined\<close>, and an object schema reports the issues of
  all its fields, one after the other.
\<close>

lemma parsedType_number: "parsedType (JNum n) = (if n = NaN then ''nan'' else ''number'')"
  by (cases n) simp_all

lemma string_ok: "(fst (zparse ZString p v) = []) = isString v"
  by (cases v) (simp_all add: parsedType_number)

lemma boolean_ok: "(fst (zparse ZBoolean p v) = []) = isBoolean v"
  by (cases v) (simp_all add: parsedType_number)

lemma number_ok: "(fst (zparse ZNumber p v) = []) = isNumber v"
proof (cases v)
  case (JNum n)
  then show ?thesis by (cases n) simp_all
qed simp_all

lemma enum_ok: "(fst (zparse (ZEnum options) p v) = []) = isOneOf options v"
  by (cases v) simp_all

lemma optional_ok:
  "(fst (zparse (ZOptional s) p v) = []) = absentOr (\<lambda>x. fst (zparse s p x) = []) v"
  by (simp add: absentOr_def)

lemma object_issues:
  "fst (zparse (ZObject shape) p (JObj kvs)) =
     concat (map (\<lambda>(k, s). fst (zparse s (p @ [Key k]) (getProp kvs k))) shape)"
  by (simp add: mergeObject_def case_prod_unfold comp_def)

lemma object_rejects_non_object:
  "(\<nexists>kvs. raw = JObj kvs) \<Longrightarrow> fst (zparse (ZObject shape) p raw) \<noteq> []"
  by (cases raw) simp_all

text \<open>
  C6, as stated, fails: \<^verbatim>\<open>createAgentSchema\<close> accepts an input whose
  \<^verbatim>\<open>identifier\<close> and \<^verbatim>\<open>name\<close> are both the empty string.
\<close>

theorem createAgent_accepts_empty_strings:
  "accepts createAgentSchema (JObj [(''identifier'', JStr ''''), (''name'', JStr '''')])"
  by (simp add: accepts_def createAgentSchema_def mergeObject_def getProp_def has_prop_def)

text \<open>
  C6, amended: \<^verbatim>\<open>createAgentSchema\<close> accepts a raw input exactly when it is an
  object whose \<^verbatim>\<open>identifier\<close> and \<^verbatim>\<open>name\<close> are strings (empty or not) and whose
  \<^verbatim>\<open>homepage\<close>, \<^verbatim>\<open>isFeatured\<close>, \<^verbatim>\<open>status\<close>, \<^verbatim>\<open>tokenUsage\<close> and
  \<^verbatim>\<open>visibility\<close> are each absent or of their declared type; every other input,
  among them one without \<^verbatim>\<open>identifier\<close> or without \<^verbatim>\<open>name\<close>, is answered with a
  \<^verbatim>\<open>BAD_REQUEST\<close> validation error.
\<close>

theorem createAgent_validation_accepts_iff:
  "(accepts createAgentSchema raw \<longleftrightarrow>
     (\<exists>kvs. raw = JObj kvs
        \<and> isString (getProp kvs ''identifier'')
        \<and> isString (getProp kvs ''name'')
        \<and> absentOr isString (getProp kvs ''homepage'')
        \<and> absentOr isBoolean (getProp kvs ''isFeatured'')
        \<and> absentOr (isOneOf [''published'', ''unpublished'', ''archived'', ''deprecated''])
             (getProp kvs ''status'')
        \<and> absentOr isNumber (getProp kvs ''tokenUsage'')
        \<and> absentOr (isOneOf [''public'', ''private'', ''internal'']) (getProp kvs ''visibility'')))
   \<and> ((\<exists>err. parseInput createAgentSchema raw = Inl err \<and> error_code err = BAD_REQUEST)
        \<longleftrightarrow> \<not> accepts createAgentSchema raw)"
proof -
  have shape: "accepts createAgentSchema raw \<longleftrightarrow>
     (\<exists>kvs. raw = JObj kvs
        \<and> isString (getProp kvs ''identifier'')
        \<and> isString (getProp kvs ''name'')
        \<and> absentOr isString (getProp kvs ''homepage'')
        \<and> absentOr isBoolean (getProp kvs ''isFeatured'')
        \<and> absentOr (isOneOf [''published'', ''unpublished'', ''archived'', ''deprecated''])
             (getProp kvs ''status'')
        \<and> absentOr isNumber (getProp kvs ''tokenUsage'')
        \<and> absentOr (isOneOf [''public'', ''private'', ''internal'']) (getProp kvs ''visibility''))"
  proof (cases "\<exists>kvs. raw = JObj kvs")
    case False
    then show ?thesis
      using object_rejects_non_object[of raw] by (auto simp: accepts_def createAgentSchema_def)
  next
    case True
    then obtain kvs where r: "raw = JObj kvs" by blast
    show ?thesis
      unfolding accepts_def createAgentSchema_def r object_issues
      by (auto simp add: optional_ok string_ok boolean_ok number_ok enum_ok simp del: zparse.simps)
  qed
  have "(\<exists>err. parseInput createAgentSchema raw = Inl err \<and> error_code err = BAD_REQUEST)
        \<longleftrightarrow> \<not> accepts createAgentSchema raw"
  proof (cases "accepts createAgentSchema raw")
    case True
    then show ?thesis by (auto simp: accepts_safeParse parseInput_def)
  next
    case False
    from rejects_safeParse[OF this] False show ?thesis by (simp add: parseInput_def)
  qed
  with shape show ?thesis by blast
qed

theorem createAgent_validation_accepts_iff_witness:
  "accepts createAgentSchema (JObj [(''identifier'', JStr ''a1''), (''name'', JStr ''Test'')])
   \<and> \<not> accepts createAgentSchema (JObj [(''name'', JStr ''Test'')])"
  using createAgent_validation_accepts_iff[of "JObj [(''identifier'', JStr ''a1''), (''name'', JStr ''Test'')]"]
    createAgent_validation_accepts_iff[of "JObj [(''name'', JStr ''Test'')]"]
  by (simp add: getProp_def absentOr_def)

section \<open>What a validation error reports\<close>

text \<open>
  Every issue of a parse lies at or below the path the parse started from and
  carries a message. The parser finds no issue exactly in the values its schema
  admits, at every depth: a value with one invalid array element or one invalid
  property is not let through.
\<close>

lemma mergeObject_issues:
  "fst (mergeObject pairs) = concat (map (\<lambda>(k, alwaysSet, r). fst r) pairs)"
  by (simp add: mergeObject_def)

lemma mergeArray_issues: "fst (mergeArray rs) = concat (map fst rs)"
  by (simp add: mergeArray_def)

lemma issue_shape:
  "i \<in> set (fst (zparse s p v)) \<Longrightarrow> (\<exists>q. issue_path i = p @ q) \<and> issue_message i \<noteq> []"
proof (induction s p v arbitrary: i rule: zparse.induct)
  case (1 p v)
  then show ?case by (auto simp: invalid_type_issue_def invalid_type_message_def split: if_splits)
next
  case (2 p v)
  then show ?case by (auto simp: invalid_type_issue_def invalid_type_message_def split: if_splits)
next
  case (3 p v)
  then show ?case by (auto simp: invalid_type_issue_def invalid_type_message_def split: if_splits)
next
  case (4 p v)
  then show ?case by simp
next
  case (5 options p v)
  then show ?case
    by (cases v)
       (auto simp: enum_type_issue_def invalid_type_message_def invalid_enum_issue_def
          split: if_splits)
next
  case (6 s p v)
  then show ?case by (auto split: if_splits)
next
  case (7 s p v)
  show ?case
  proof (cases v)
    case (JArr xs)
    with 7(2) obtain n x where nx: "(n, x) \<in> set (enumerate 0 xs)"
        and i: "i \<in> set (fst (zparse s (p @ [Index n]) x))"
      by (auto simp: mergeArray_issues)
    from 7(1)[OF JArr nx refl i] show ?thesis by auto
  qed (use 7(2) in \<open>simp_all add: invalid_type_issue_def invalid_type_message_def\<close>)
next
  case (8 s p v)
  show ?case
  proof (cases v)
    case (JObj kvs)
    with 8(2) obtain k x where kx: "(k, x) \<in> set kvs"
        and i: "i \<in> set (fst (zparse s (p @ [Key k]) x))"
      by (auto simp: mergeObject_issues) (metis fst_conv)
    from 8(1)[OF JObj kx refl i] show ?thesis by auto
  qed (use 8(2) in \<open>simp_all add: invalid_type_issue_def invalid_type_message_def\<close>)
next
  case (9 shape p v)
  show ?case
  proof (cases v)
    case (JObj kvs)
    with 9(2) obtain k s where ks: "(k, s) \<in> set shape"
        and i: "i \<in> set (fst (zparse s (p @ [Key k]) (getProp kvs k)))"
      by (auto simp: mergeObject_issues) (metis fst_conv)
    from 9(1)[OF JObj ks refl i] show ?thesis by auto
  qed (use 9(2) in \<open>simp_all add: invalid_type_issue_def invalid_type_message_def\<close>)
qed

lemma zparse_conforms: "(fst (zparse s p v) = []) = conforms s v"
proof (induction s p v rule: zparse.induct)
  case (1 p v)
  show ?case using string_ok[of p v] by simp
next
  case (2 p v)
  show ?case using number_ok[of p v] by simp
next
  case (3 p v)
  show ?case using boolean_ok[of p v] by simp
next
  case (4 p v)
  show ?case by simp
next
  case (5 options p v)
  show ?case using enum_ok[of options p v] by simp
next
  case (6 s p v)
  then show ?case by simp
next
  case (7 s p v)
  show ?case
  proof (cases v)
    case (JArr xs)
    have "(fst (zparse (ZArray s) p v) = []) =
            (\<forall>(i, x) \<in> set (enumerate 0 xs). fst (zparse s (p @ [Index i]) x) = [])"
      by (auto simp: JArr mergeArray_issues)
    also have "\<dots> = (\<forall>(i, x) \<in> set (enumerate 0 xs). conforms s x)"
      using 7[OF JArr] by auto
    also have "\<dots> = (\<forall>x \<in> snd ` set (enumerate 0 xs). conforms s x)"
      by force
    also have "snd ` set (enumerate 0 xs) = set xs"
      by (metis list.set_map map_snd_enumerate)
    also have "(\<forall>x \<in> set xs. conforms s x) = conforms (ZArray s) v"
      by (simp add: JArr)
    finally show ?thesis .
  qed simp_all
next
  case (8 s p v)
  show ?case
  proof (cases v)
    case (JObj kvs)
    have "(fst (zparse (ZRecord s) p v) = []) =
            (\<forall>(k, x) \<in> set kvs. fst (zparse s (p @ [Key k]) x) = [])"
      by (auto simp: JObj mergeObject_issues)
    also have "\<dots> = (\<forall>(k, x) \<in> set kvs. conforms s x)"
      using 8[OF JObj] by auto
    also have "\<dots> = conforms (ZRecord s) v"
      by (auto simp: JObj)
    finally show ?thesis .
  qed simp_all
next
  case (9 shape p v)
  show ?case
  proof (cases v)
    case (JObj kvs)
    have "(fst (zparse (ZObject shape) p v) = []) =
            (\<forall>(k, s) \<in> set shape. fst (zparse s (p @ [Key k]) (getProp kvs k)) = [])"
      by (auto simp: JObj mergeObject_issues)
    also have "\<dots> = (\<forall>(k, s) \<in> set shape. conforms s (getProp kvs k))"
      using 9[OF JObj] by auto
    also have "\<dots> = conforms (ZObject shape) v"
      by (simp add: JObj)
    finally show ?thesis .
  qed simp_all
qed

lemma reportedFields_of_field:
  "set (reportedFields (fst (zparse s [Key k] v))) = (if fst (zparse s [Key k] v) = [] then {} else {k})"
proof -
  have "\<And>i. i \<in> set (fst (zparse s [Key k] v)) \<Longrightarrow> reportedField i = [k]"
    using issue_shape[of _ s "[Key k]" v] by fastforce
  then show ?thesis
    by (cases "fst (zparse s [Key k] v)") (auto simp: reportedFields_def)
qed

lemma reportedFields_append:
  "reportedFields (xs @ ys) = reportedFields xs @ reportedFields ys"
  by (simp add: reportedFields_def)

lemma reported_are_invalid:
  "set (reportedFields (concat (map (\<lambda>(k, s). fst (zparse s [Key k] (getProp kvs k))) shape))) =
   set (invalidFields shape kvs)"
proof (induction shape)
  case Nil
  show ?case by (simp add: reportedFields_def invalidFields_def)
next
  case (Cons field shape)
  obtain k s where f: "field = (k, s)" by (cases field)
  have "invalidFields (field # shape) kvs =
          (if conforms s (getProp kvs k) then [] else [k]) @ invalidFields shape kvs"
    by (simp add: invalidFields_def f)
  with Cons show ?case
    by (simp add: f reportedFields_append reportedFields_of_field zparse_conforms
          del: zparse.simps conforms.simps)
qed

lemma schema_issues:
  "fst (zparse (inputSchema op) [] (JObj kvs)) =
     concat (map (\<lambda>(k, s). fst (zparse s [Key k] (getProp kvs k))) (shapeOf (inputSchema op)))"
proof -
  obtain shape where "inputSchema op = ZObject shape \<or> inputSchema op = ZOptional (ZObject shape)"
    by (cases op)
       (auto simp: createAgentSchema_def createAgentVersionSchema_def identifierSchema_def
          paginationSchema_def)
  then show ?thesis
    using object_issues[of shape "[]" kvs] by auto
qed

text \<open>
  C7: for every operation and every raw object the operation's schema rejects,
  the fields the validation error reports are exactly the invalid fields of the
  input, all of them and not only the first, where a field is invalid when its
  value is not one its schema admits; every issue has a non-empty message, the
  message of the error is the JSON text of the issues, and the world is left as
  it was.
\<close>

theorem validation_reports_every_failed_field:
  assumes "parseInput (inputSchema op) (JObj kvs) = Inl err"
  shows "\<exists>issues. error_cause err = Some (ZodError issues) \<and> error_code err = BAD_REQUEST
           \<and> error_message err = zodMessage issues
           \<and> set (reportedFields issues) = set (invalidFields (shapeOf (inputSchema op)) kvs)
           \<and> (\<forall>i \<in> set issues. issue_message i \<noteq> [])
           \<and> agentRouter gw op (Some c) (JObj kvs) w = (Inl err, w)"
proof -
  let ?issues = "fst (zparse (inputSchema op) [] (JObj kvs))"
  from assms have e: "err = \<lparr>error_cause = Some (ZodError ?issues), error_code = BAD_REQUEST,
                              error_message = zodMessage ?issues\<rparr>"
    by (auto simp: parseInput_def safeParse_def split: prod.splits if_splits)
  have "set (reportedFields ?issues) = set (invalidFields (shapeOf (inputSchema op)) kvs)"
    by (simp only: schema_issues reported_are_invalid)
  moreover have "\<forall>i \<in> set ?issues. issue_message i \<noteq> []"
    using issue_shape by blast
  moreover have "agentRouter gw op (Some c) (JObj kvs) w = (Inl err, w)"
    using assms by (simp add: agentRouter_def agentProcedure_def)
  ultimately show ?thesis
    using e by simp
qed

theorem validation_reports_every_failed_field_witness:
  "\<exists>err issues.
      parseInput (inputSchema CreateAgentVersion)
        (JObj [(''identifier'', JNum (Finite 1)), (''defaultInputModes'', JArr [JNum (Finite 1)])])
        = Inl err
      \<and> error_cause err = Some (ZodError issues)
      \<and> set (reportedFields issues) = {''defaultInputModes'', ''identifier''}"
proof -
  let ?kvs = "[(''identifier'', JNum (Finite 1)), (''defaultInputModes'', JArr [JNum (Finite 1)])]"
  have f: "invalidFields (shapeOf (inputSchema CreateAgentVersion)) ?kvs =
             [''defaultInputModes'', ''identifier'']"
    by (simp add: invalidFields_def createAgentVersionSchema_def getProp_def)
  have "\<not> conforms (inputSchema CreateAgentVersion) (JObj ?kvs)"
    by (simp add: createAgentVersionSchema_def getProp_def)
  then have "\<not> accepts (inputSchema CreateAgentVersion) (JObj ?kvs)"
    by (simp add: accepts_def zparse_conforms del: conforms.simps zparse.simps)
  then obtain err where p: "parseInput (inputSchema CreateAgentVersion) (JObj ?kvs) = Inl err"
    by (auto simp: parseInput_def dest: rejects_safeParse)
  from validation_reports_every_failed_field[OF p, of "resolving JNull" "\<lparr>userId = ''u1''\<rparr>"
      "emptyWorld ()"] f
  obtain issues where "error_cause err = Some (ZodError issues)"
    and "set (reportedFields issues) = {''defaultInputModes'', ''identifier''}"
    by auto
  with p show ?thesis by blast
qed

section \<open>Deprecation in the marketplace of the specification\<close>

lemma identifier_parse:
  "getProp kvs ''identifier'' = JStr i \<Longrightarrow>
   safeParse identifierSchema (JObj kvs) = Inr (identifierInput i)"
  by (simp add: safeParse_def identifierSchema_def identifierInput_def mergeObject_def)

lemma sentArgument_identifier:
  "optionalMember (identifierInput i) ''identifier'' = JStr i"
  by (simp_all add: optionalMember_def member_def identifierInput_def getProp_def nullish_def)

lemma map_of_setStatus:
  "map_of (agents (setStatus i s m)) j =
     (if j = i then map_option (\<lambda>a. a\<lparr>agentStatus := s\<rparr>) (map_of (agents m) i)
      else map_of (agents m) j)"
proof -
  have "map_of (map (\<lambda>(k, a). if k = i then (k, a\<lparr>agentStatus := s\<rparr>) else (k, a)) xs) j =
     (if j = i then map_option (\<lambda>a. a\<lparr>agentStatus := s\<rparr>) (map_of xs i) else map_of xs j)" for xs
    by (induction xs) auto
  then show ?thesis by (auto simp: setStatus_def)
qed

lemma transition_keeps_deprecated:
  "map_option agentStatus (map_of (agents m) i) = Some Deprecated \<Longrightarrow>
   map_option agentStatus (map_of (agents (snd (transition target arg m))) i) = Some Deprecated"
  by (cases arg) (auto simp: transition_def map_of_setStatus split: option.splits)

lemma marketplace_keeps_deprecated:
  assumes "map_option agentStatus (map_of (agents m) i) = Some Deprecated"
  shows "map_option agentStatus (map_of (agents (snd (marketplace c meth arg m))) i) = Some Deprecated"
proof (cases meth)
  case GW_createAgent
  with assms show ?thesis
    by (auto simp: map_add_def split: jsval.splits option.splits)
next
  case GW_createAgentVersion
  with assms show ?thesis by (auto split: jsval.splits option.splits)
next
  case GW_getAgentDetail
  with assms show ?thesis by (auto split: jsval.splits option.splits)
qed (use assms in \<open>simp_all add: transition_keeps_deprecated\<close>)

lemma router_keeps_deprecated:
  assumes "statusOf w i = Some Deprecated"
  shows "statusOf (snd (agentRouter marketplace op session raw w)) i = Some Deprecated"
proof (cases "agentProcedure session")
  case (Inl e)
  with assms show ?thesis by (simp add: agentRouter_def)
next
  case (Inr c)
  show ?thesis
  proof (cases "safeParse (inputSchema op) raw")
    case (Inl issues)
    with Inr assms show ?thesis by (simp add: agentRouter_def parseInput_def)
  next
    case v: (Inr input)
    with Inr have "agentRouter marketplace op session raw w = resolver op marketplace c input w"
      by (simp add: agentRouter_def parseInput_def)
    with resolver_state[OF v, of marketplace c w] assms show ?thesis
      by (simp add: statusOf_def marketplace_keeps_deprecated)
  qed
qed

lemma runCalls_keeps_deprecated:
  "statusOf w i = Some Deprecated \<Longrightarrow> statusOf (runCalls marketplace calls w) i = Some Deprecated"
proof (induction calls arbitrary: w)
  case Nil
  then show ?case by simp
next
  case (Cons call calls)
  obtain op session raw where "call = (op, session, raw)" by (cases call)
  with Cons show ?case by (simp add: router_keeps_deprecated)
qed

lemma deprecate_success_sets_status:
  assumes "getProp kvs ''identifier'' = JStr i"
    and "fst (agentRouter marketplace DeprecateAgent session (JObj kvs) w) = Inr r"
  shows "statusOf (snd (agentRouter marketplace DeprecateAgent session (JObj kvs) w)) i = Some Deprecated"
proof -
  from assms(2) obtain c where s: "session = Some c"
    by (cases session) (auto simp: agentRouter_def agentProcedure_def)
  have v: "safeParse (inputSchema DeprecateAgent) (JObj kvs) = Inr (identifierInput i)"
    using identifier_parse[OF assms(1)] by simp
  have eq: "agentRouter marketplace DeprecateAgent session (JObj kvs) w =
        resolver DeprecateAgent marketplace c (identifierInput i) w"
    unfolding s by (rule agentRouter_valid[OF v])
  from assms(2) resolver_result[OF v, of marketplace c w]
  have "\<exists>x. fst (transition Deprecated (JStr i) (gateway_state w)) = Inr x"
    by (auto simp: eq sentArgument_identifier split: sum.splits)
  then obtain a where a: "map_of (agents (gateway_state w)) i = Some a"
    and t: "snd (transition Deprecated (JStr i) (gateway_state w)) = setStatus i Deprecated (gateway_state w)"
    by (auto simp: transition_def notFound_def split: option.splits)
  from resolver_state[OF v, of marketplace c w] t a show ?thesis
    by (simp add: eq statusOf_def sentArgument_identifier map_of_setStatus)
qed

lemma transition_on_deprecated:
  assumes "statusOf w i = Some Deprecated"
    and "getProp kvs ''identifier'' = JStr i"
    and "op = PublishAgent \<or> op = UnpublishAgent"
  shows "fst (agentRouter marketplace op (Some c) (JObj kvs) w) =
           Inl \<lparr>error_cause = Some (Original (ErrorObject ''Conflict'' ''Agent is deprecated'')),
                error_code = INTERNAL_SERVER_ERROR,
                error_message = ''Agent is deprecated''\<rparr>"
proof -
  have v: "safeParse (inputSchema op) (JObj kvs) = Inr (identifierInput i)"
    using identifier_parse[OF assms(2)] assms(3) by auto
  have eq: "agentRouter marketplace op (Some c) (JObj kvs) w =
        resolver op marketplace c (identifierInput i) w"
    by (rule agentRouter_valid[OF v])
  from assms(1) obtain a where "map_of (agents (gateway_state w)) i = Some a"
      "agentStatus a = Deprecated"
    by (auto simp: statusOf_def)
  then have "fst (marketplace c (namedMethod op) (sentArgument op (identifierInput i)) (gateway_state w))
        = Inl (conflict ''Agent is deprecated'')"
    using assms(3) by (auto simp: sentArgument_identifier transition_def)
  with resolver_result[OF v, of marketplace c w] show ?thesis
    by (simp add: eq conflict_def newTRPCError_def)
qed

text \<open>
  C1: against the marketplace of the specification, once \<^verbatim>\<open>deprecateAgent\<close> has
  succeeded for an identifier, then after any sequence of further calls of the
  router, by any caller and with any input, the agent's status is still
  deprecated, and an authenticated \<^verbatim>\<open>publishAgent\<close> or \<^verbatim>\<open>unpublishAgent\<close> for
  that identifier fails with the gateway's Conflict error as the cause of the
  surfaced error and leaves the status deprecated.
\<close>

theorem deprecation_is_terminal:
  assumes "getProp kvs ''identifier'' = JStr i"
    and "fst (agentRouter marketplace DeprecateAgent session (JObj kvs) w0) = Inr r"
    and "w = runCalls marketplace calls
               (snd (agentRouter marketplace DeprecateAgent session (JObj kvs) w0))"
    and "op = PublishAgent \<or> op = UnpublishAgent"
    and "getProp kvs' ''identifier'' = JStr i"
  shows "statusOf w i = Some Deprecated
         \<and> fst (agentRouter marketplace op (Some c) (JObj kvs') w) =
             Inl \<lparr>error_cause = Some (Original (ErrorObject ''Conflict'' ''Agent is deprecated'')),
                  error_code = INTERNAL_SERVER_ERROR,
                  error_message = ''Agent is deprecated''\<rparr>
         \<and> statusOf (snd (agentRouter marketplace op (Some c) (JObj kvs') w)) i = Some Deprecated"
proof -
  have d: "statusOf w i = Some Deprecated"
    unfolding assms(3)
    by (rule runCalls_keeps_deprecated) (rule deprecate_success_sets_status[OF assms(1,2)])
  from d transition_on_deprecated[OF d assms(5,4)] router_keeps_deprecated[OF d]
  show ?thesis by simp
qed

theorem deprecation_is_terminal_witness:
  "fst (agentRouter marketplace DeprecateAgent (Some \<lparr>userId = ''u1''\<rparr>)
          (JObj [(''identifier'', JStr ''a1'')]) (emptyWorld oneAgentMarket)) =
     Inr (JObj [(''success'', JBool True)])
   \<and> statusOf
        (runCalls marketplace [(UnpublishAgent, Some \<lparr>userId = ''u2''\<rparr>, JObj [(''identifier'', JStr ''a1'')])]
          (snd (agentRouter marketplace DeprecateAgent (Some \<lparr>userId = ''u1''\<rparr>)
                 (JObj [(''identifier'', JStr ''a1'')]) (emptyWorld oneAgentMarket))))
        ''a1'' = Some Deprecated
   \<and> fst (agentRouter marketplace PublishAgent (Some \<lparr>userId = ''u1''\<rparr>)
            (JObj [(''identifier'', JStr ''a1'')])
            (runCalls marketplace [(UnpublishAgent, Some \<lparr>userId = ''u2''\<rparr>, JObj [(''identifier'', JStr ''a1'')])]
              (snd (agentRouter marketplace DeprecateAgent (Some \<lparr>userId = ''u1''\<rparr>)
                     (JObj [(''identifier'', JStr ''a1'')]) (emptyWorld oneAgentMarket))))) =
       Inl \<lparr>error_cause = Some (Original (ErrorObject ''Conflict'' ''Agent is deprecated'')),
            error_code = INTERNAL_SERVER_ERROR,
            error_message = ''Agent is deprecated''\<rparr>"
proof -
  have i: "getProp [(''identifier'', JStr ''a1'')] ''identifier'' = JStr ''a1''"
    by (simp add: getProp_def)
  have v: "safeParse (inputSchema DeprecateAgent) (JObj [(''identifier'', JStr ''a1'')]) =
             Inr (identifierInput ''a1'')"
    using identifier_parse[OF i] by simp
  have d: "fst (agentRouter marketplace DeprecateAgent (Some \<lparr>userId = ''u1''\<rparr>)
                 (JObj [(''identifier'', JStr ''a1'')]) (emptyWorld oneAgentMarket)) =
             Inr (JObj [(''success'', JBool True)])"
    unfolding agentRouter_valid[OF v]
    by (simp add: deprecateAgent_def identifierInput_def member_def getProp_def catchClause_def
          callGateway_def log_def emptyWorld_def transition_def oneAgentMarket_def
          nullish_coalesce_def nullish_def)
  from deprecation_is_terminal[OF i d refl _ i, of PublishAgent
      "[(UnpublishAgent, Some \<lparr>userId = ''u2''\<rparr>, JObj [(''identifier'', JStr ''a1'')])]"
      "\<lparr>userId = ''u1''\<rparr>"] d
  show ?thesis by simp
qed

end
